theory Spec2Isabelle
  imports Complex_Main "HOL-Library.Multiset"
begin

section \<open>Conventions of the embedding\<close>

text \<open>
  The program is Python. A \<open>Dict[str, Any]\<close> whose keys are fixed by the code that reads
  and writes it is a record; a key that may be absent is an \<open>option\<close> field, and
  \<open>d.get(k, default)\<close> is \<open>get_or\<close>. Python's \<open>float\<close> is idealised as \<open>real\<close>
  (exact arithmetic, no rounding, no NaN), Python's \<open>int\<close> is \<open>int\<close>, and \<open>str\<close> is
  \<open>string\<close> restricted to ASCII characters.
\<close>

definition get_or :: "'a option \<Rightarrow> 'a \<Rightarrow> 'a" where
  "get_or v d = (case v of Some x \<Rightarrow> x | None \<Rightarrow> d)"

text \<open>
  \<open>xs[i:j]\<close> with Python's treatment of negative and out-of-range bounds.
\<close>

definition slice_bound :: "nat \<Rightarrow> int \<Rightarrow> nat" where
  "slice_bound n i = (if i < 0 then nat (max 0 (int n + i)) else min n (nat i))"

definition py_slice :: "'a list \<Rightarrow> int \<Rightarrow> int \<Rightarrow> 'a list" where
  "py_slice xs i j =
     (let lo = slice_bound (length xs) i; hi = slice_bound (length xs) j
      in take (hi - lo) (drop lo xs))"

text \<open>\<open>xs[i:]\<close> and \<open>xs[:j]\<close>.\<close>

definition py_slice_from :: "'a list \<Rightarrow> int \<Rightarrow> 'a list" where
  "py_slice_from xs i = drop (slice_bound (length xs) i) xs"

definition py_slice_to :: "'a list \<Rightarrow> int \<Rightarrow> 'a list" where
  "py_slice_to xs j = take (slice_bound (length xs) j) xs"

text \<open>
  \<open>list.sort(key=f)\<close> and \<open>sorted(xs, key=f)\<close> are stable ascending sorts, which is what
  \<open>sort_key\<close> is. With \<open>reverse=True\<close> CPython reverses the list, sorts it ascending and
  reverses the result, so that elements with equal keys keep their original order.
\<close>

definition py_sort_reverse :: "('a \<Rightarrow> 'k::linorder) \<Rightarrow> 'a list \<Rightarrow> 'a list" where
  "py_sort_reverse f xs = rev (sort_key f (rev xs))"

section \<open>Data model\<close>

text \<open>A turn id is whatever the transcript holds (a string or a number).\<close>

datatype turn_ident = IdStr string | IdInt int

datatype py_value = PNone | PBool bool | PInt int | PStr string

record turn =
  turn_id :: "turn_ident option"
  speaker :: "string option"
  turn_text :: "string option"

datatype temporal_rel = Precedes | Follows | Overlaps

record span_metadata =
  window_size :: int
  speaker_distribution :: "string \<rightharpoonup> nat"

record evidence_parts =
  relevance :: real
  temporal :: real
  pattern :: real
  similarity :: real

text \<open>
  A span is a dictionary; every stage copies it and adds its own keys. The record lists
  the keys the span extractor, the pattern detector and the evidence scorer read or write.
  The key \<open>'text'\<close> is the field \<open>span_text\<close> (\<open>turn_text\<close> in a turn).
\<close>

record span =
  span_id :: "string option"
  span_text :: "string option"
  start_turn_index :: "int option"
  end_turn_index :: "int option"
  turn_ids :: "turn_ident list option"
  speakers :: "string list option"
  transcript_id :: "string option"
  metadata :: "span_metadata option"
  relevance_score :: "real option"
  combined_score :: "real option"
  similarity_score :: "real option"
  temporal_indicators :: "nat option"
  causal_indicators :: "nat option"
  conditional_indicators :: "nat option"
  consequence_indicators :: "nat option"
  behavioral_patterns :: "(string \<times> py_value) list option"
  pattern_score :: "real option"
  temporal_relation :: "temporal_rel option"
  temporal_distance :: "int option"
  temporal_score :: "real option"
  sequential_indicators :: "nat option"
  sequential_score :: "real option"
  evidence_score :: "real option"
  evidence_components :: "evidence_parts option"

definition empty_span :: span where
  "empty_span = \<lparr> span_id = None, span_text = None, start_turn_index = None,
     end_turn_index = None, turn_ids = None, speakers = None, transcript_id = None,
     metadata = None, relevance_score = None, combined_score = None,
     similarity_score = None, temporal_indicators = None, causal_indicators = None,
     conditional_indicators = None, consequence_indicators = None,
     behavioral_patterns = None, pattern_score = None, temporal_relation = None,
     temporal_distance = None, temporal_score = None, sequential_indicators = None,
     sequential_score = None, evidence_score = None, evidence_components = None \<rparr>"

section \<open>Evidence scorer (evidence_scorer.py)\<close>

record evidence_scorer =
  relevance_weight :: real
  temporal_weight :: real
  pattern_weight :: real
  similarity_weight :: real

text \<open>The defaults of \<open>EvidenceScorer.__init__\<close>.\<close>

definition default_scorer :: evidence_scorer where
  "default_scorer = \<lparr> relevance_weight = 0.4, temporal_weight = 0.3,
     pattern_weight = 0.2, similarity_weight = 0.1 \<rparr>"

text \<open>The body of the loop of \<open>score_evidence\<close>, for one span.\<close>

definition score_span :: "evidence_scorer \<Rightarrow> span \<Rightarrow> span" where
  "score_span self s =
     (let relevance_score' = get_or (relevance_score s) (get_or (combined_score s) 0);
          similarity_score' = get_or (similarity_score s) 0;
          pattern_score' = get_or (pattern_score s) 0;
          temporal_score' = get_or (temporal_score s) 0.5;
          evidence_score' =
            relevance_weight self * relevance_score' +
            temporal_weight self * temporal_score' +
            pattern_weight self * pattern_score' +
            similarity_weight self * similarity_score'
      in s\<lparr> evidence_score := Some evidence_score',
             evidence_components := Some \<lparr> relevance = relevance_score',
               temporal = temporal_score', pattern = pattern_score',
               similarity = similarity_score' \<rparr> \<rparr>)"

text \<open>The sort key \<open>lambda x: x.get('evidence_score', 0.0)\<close>.\<close>

definition evidence_key :: "span \<Rightarrow> real" where
  "evidence_key x = get_or (evidence_score x) 0"

definition score_evidence ::
  "evidence_scorer \<Rightarrow> span list \<Rightarrow> string \<Rightarrow> string option \<Rightarrow> int option \<Rightarrow> span list" where
  "score_evidence self spans query event_type event_turn_index =
     py_sort_reverse evidence_key (map (score_span self) spans)"

definition rank_evidence :: "evidence_scorer \<Rightarrow> span list \<Rightarrow> int option \<Rightarrow> span list" where
  "rank_evidence self spans top_k =
     (let spans' = (if \<not> list_all (\<lambda>s. evidence_score s \<noteq> None) spans
                    then score_evidence self spans [] None None else spans);
          ranked = py_sort_reverse evidence_key spans'
      in case top_k of None \<Rightarrow> ranked | Some k \<Rightarrow> py_slice_to ranked k)"

section \<open>Strings (str methods and the regular expressions the program uses)\<close>

definition char_lower :: "char \<Rightarrow> char" where
  "char_lower c = (let n = (of_char c :: nat) in
     if 65 \<le> n \<and> n \<le> 90 then char_of (n + 32) else c)"

text \<open>\<open>s.lower()\<close>.\<close>

definition lower :: "string \<Rightarrow> string" where
  "lower s = map char_lower s"

text \<open>\<open>c.isspace()\<close> on ASCII: tab to carriage return, the four separators, the blank.\<close>

definition is_space :: "char \<Rightarrow> bool" where
  "is_space c = (let n = (of_char c :: nat) in (9 \<le> n \<and> n \<le> 13) \<or> (28 \<le> n \<and> n \<le> 32))"

text \<open>The class \<open>\w\<close> of \<open>re\<close> on ASCII: letters, digits and the underscore.\<close>

definition is_word_char :: "char \<Rightarrow> bool" where
  "is_word_char c = (let n = (of_char c :: nat) in
     (48 \<le> n \<and> n \<le> 57) \<or> (65 \<le> n \<and> n \<le> 90) \<or> (97 \<le> n \<and> n \<le> 122) \<or> n = 95)"

text \<open>\<open>s.split()\<close>: the maximal runs of characters that are not whitespace.\<close>

fun split_ws :: "string \<Rightarrow> string \<Rightarrow> string list" where
  "split_ws w [] = (if w = [] then [] else [w])"
| "split_ws w (c # cs) =
     (if is_space c then (if w = [] then split_ws [] cs else w # split_ws [] cs)
      else split_ws (w @ [c]) cs)"

definition py_split :: "string \<Rightarrow> string list" where
  "py_split s = split_ws [] s"

text \<open>\<open>sep.join(xs)\<close>.\<close>

fun join :: "string \<Rightarrow> string list \<Rightarrow> string" where
  "join sep [] = []"
| "join sep [x] = x"
| "join sep (x # y # ys) = x @ sep @ join sep (y # ys)"

text \<open>\<open>s.startswith(p)\<close> and \<open>p in s\<close>.\<close>

fun starts_with :: "string \<Rightarrow> string \<Rightarrow> bool" where
  "starts_with [] s = True"
| "starts_with (p # ps) [] = False"
| "starts_with (p # ps) (c # cs) = (p = c \<and> starts_with ps cs)"

fun str_contains :: "string \<Rightarrow> string \<Rightarrow> bool" where
  "str_contains p [] = (p = [])"
| "str_contains p (c # cs) = (starts_with p (c # cs) \<or> str_contains p cs)"

text \<open>\<open>str(n)\<close> for a number that is not negative.\<close>

definition digit_char :: "nat \<Rightarrow> char" where
  "digit_char d = char_of (48 + d)"

fun str_nat :: "nat \<Rightarrow> string" where
  "str_nat n = (if n < 10 then [digit_char n] else str_nat (n div 10) @ [digit_char (n mod 10)])"

text \<open>
  \<open>\b\<close> holds between two positions when exactly one side is a word character; the
  outside of the text counts as not a word character.
\<close>

definition opt_word :: "char option \<Rightarrow> bool" where
  "opt_word c = (case c of None \<Rightarrow> False | Some x \<Rightarrow> is_word_char x)"

definition word_boundary :: "char option \<Rightarrow> char option \<Rightarrow> bool" where
  "word_boundary prev nxt = (opt_word prev \<noteq> opt_word nxt)"

definition first_char :: "string \<Rightarrow> char option" where
  "first_char s = (case s of [] \<Rightarrow> None | c # _ \<Rightarrow> Some c)"

text \<open>
  Whether \<open>\b\<close> + \<open>re.escape(indicator)\<close> + \<open>\b\<close> matches at the start of \<open>rest\<close>, the
  character before it being \<open>prev\<close>.
\<close>

definition match_here :: "string \<Rightarrow> char option \<Rightarrow> string \<Rightarrow> bool" where
  "match_here indicator prev rest =
     (word_boundary prev (first_char rest) \<and> starts_with indicator rest \<and>
      word_boundary (if indicator = [] then prev else Some (last indicator))
                    (first_char (drop (length indicator) rest)))"

text \<open>
  \<open>len(re.findall(pattern, text))\<close>: the scan goes left to right; after a match it
  resumes at the end of the match, after a failure one character further.
\<close>

function findall_count :: "string \<Rightarrow> char option \<Rightarrow> string \<Rightarrow> nat" where
  "findall_count indicator prev rest =
     (if match_here indicator prev rest then
        (if indicator = [] then
           (case rest of [] \<Rightarrow> 1 | c # cs \<Rightarrow> 1 + findall_count indicator (Some c) cs)
         else 1 + findall_count indicator (Some (last indicator)) (drop (length indicator) rest))
      else
        (case rest of [] \<Rightarrow> 0 | c # cs \<Rightarrow> findall_count indicator (Some c) cs))"
  by pat_completeness auto

termination
proof (relation "measure (\<lambda>(indicator, prev, rest). length rest)")
  show "wf (measure (\<lambda>(indicator, prev, rest). length rest))" by simp
next
  fix indicator :: string and prev :: "char option" and rest :: string and c cs
  assume "rest = c # cs"
  then show "((indicator, Some c, cs), (indicator, prev, rest))
               \<in> measure (\<lambda>(indicator, prev, rest). length rest)" by simp
next
  fix indicator :: string and prev :: "char option" and rest :: string
  assume m: "match_here indicator prev rest" and ne: "indicator \<noteq> []"
  have len: "starts_with p s \<Longrightarrow> length p \<le> length s" for p s :: string
    by (induction p s rule: starts_with.induct) simp_all
  from m have "starts_with indicator rest" by (simp add: match_here_def)
  then have "length indicator \<le> length rest" by (rule len)
  with ne show "((indicator, Some (last indicator), drop (length indicator) rest),
                 (indicator, prev, rest))
               \<in> measure (\<lambda>(indicator, prev, rest). length rest)"
    by (cases indicator) simp_all
next
  fix indicator :: string and prev :: "char option" and rest :: string and c cs
  assume "rest = c # cs"
  then show "((indicator, Some c, cs), (indicator, prev, rest))
               \<in> measure (\<lambda>(indicator, prev, rest). length rest)" by simp
qed


section \<open>Pattern detector (pattern_detector.py)\<close>

text \<open>
  The two lexicon dictionaries of \<open>CausalPatternDetector.__init__\<close>:
  \<open>self.causal_indicators\<close>, one constant per key, and \<open>self.behavioral_patterns\<close>, in
  the order of its keys.
\<close>

definition temporal_lexicon :: "string list" where
  "temporal_lexicon =
     [''before'', ''after'', ''then'', ''next'', ''previously'', ''earlier'', ''later'']"

definition causal_lexicon :: "string list" where
  "causal_lexicon =
     [''because'', ''due to'', ''as a result'', ''led to'', ''caused'', ''resulted in'']"

definition conditional_lexicon :: "string list" where
  "conditional_lexicon = [''if'', ''when'', ''unless'', ''provided that'']"

definition consequence_lexicon :: "string list" where
  "consequence_lexicon = [''therefore'', ''thus'', ''hence'', ''consequently'', ''so'']"

definition behavioral_lexicon :: "(string \<times> string list) list" where
  "behavioral_lexicon =
     [(''hesitation'', [''um'', ''uh'', ''well'', ''let me think'', ''hmm'']),
      (''frustration'', [''frustrated'', ''annoyed'', ''upset'', ''disappointed'']),
      (''repetition'', [''again'', ''repeat'', ''same'', ''once more'']),
      (''escalation_signals'',
         [''supervisor'', ''manager'', ''escalate'', ''complaint'', ''formal'']),
      (''refund_signals'',
         [''refund'', ''money back'', ''return'', ''cancel'', ''chargeback'']),
      (''churn_signals'',
         [''cancel'', ''close account'', ''switch'', ''leave'', ''terminate''])]"

text \<open>\<open>_count_indicators\<close>: the loop adds the number of matches of each indicator.\<close>

definition count_indicators :: "string \<Rightarrow> string list \<Rightarrow> nat" where
  "count_indicators txt indicators =
     fold (\<lambda>indicator cnt. cnt + findall_count indicator None txt) indicators 0"

text \<open>\<open>d[k] = v\<close> on a dictionary kept in insertion order.\<close>

fun dict_set :: "(string \<times> 'v) list \<Rightarrow> string \<Rightarrow> 'v \<Rightarrow> (string \<times> 'v) list" where
  "dict_set [] k v = [(k, v)]"
| "dict_set ((k', v') # d) k v =
     (if k' = k then (k, v) # d else (k', v') # dict_set d k v)"

definition get_event_specific_patterns :: "string \<Rightarrow> (string \<times> string list) list" where
  "get_event_specific_patterns event_type =
     (let event_type_lower = lower event_type in
      if str_contains ''escalation'' event_type_lower then
        [(''escalation_triggers'',
          [''not satisfied'', ''unhappy'', ''want to speak'', ''need manager'',
           ''file complaint'', ''not helping'', ''waste of time''])]
      else if str_contains ''refund'' event_type_lower then
        [(''refund_triggers'',
          [''not working'', ''defective'', ''broken'', ''not as described'',
           ''want money back'', ''dissatisfied'', ''poor quality''])]
      else if str_contains ''churn'' event_type_lower then
        [(''churn_triggers'',
          [''too expensive'', ''better option'', ''switching'', ''leaving'',
           ''not worth it'', ''found alternative'', ''better deal''])]
      else [])"

text \<open>
  The two loops of \<open>_detect_behavioral_patterns\<close> have the same body, the second one
  with the key prefix \<open>event_\<close>.
\<close>

definition record_pattern ::
  "string \<Rightarrow> string \<Rightarrow> (string \<times> py_value) list \<Rightarrow> string \<times> string list
     \<Rightarrow> (string \<times> py_value) list" where
  "record_pattern txt prefix detected entry =
     (let pattern_name = fst entry; keywords = snd entry;
          cnt = count_indicators txt keywords
      in dict_set (dict_set detected (prefix @ pattern_name) (PBool (cnt > 0)))
                  (prefix @ pattern_name @ ''_count'') (PInt (int cnt)))"

definition detect_behavioral_patterns ::
  "string \<Rightarrow> string option \<Rightarrow> (string \<times> py_value) list" where
  "detect_behavioral_patterns txt event_type =
     (let detected = foldl (record_pattern txt []) [] behavioral_lexicon in
      case event_type of
        None \<Rightarrow> detected
      | Some et \<Rightarrow>
          if et = [] then detected
          else foldl (record_pattern txt ''event_'') detected
                     (get_event_specific_patterns et))"

text \<open>
  The dictionary \<open>detect_patterns\<close> returns. Its keys are those of the span record with
  the same name; the fields carry the prefix \<open>pr_\<close> to tell the two records apart.
\<close>

record pattern_result =
  pr_temporal_indicators :: nat
  pr_causal_indicators :: nat
  pr_conditional_indicators :: nat
  pr_consequence_indicators :: nat
  pr_behavioral_patterns :: "(string \<times> py_value) list"
  pr_pattern_score :: real

text \<open>\<open>min(count / 5.0, 1.0)\<close>.\<close>

definition normalized :: "nat \<Rightarrow> real" where
  "normalized cnt = min (real cnt / 5) 1"

text \<open>
  \<open>any(behavioral.get(k, False) for k in behavioral.keys()
       if isinstance(behavioral.get(k), bool))\<close>: the counts are not \<open>bool\<close> and are
  skipped, a flag counts when it is \<open>True\<close>.
\<close>

definition any_flag :: "(string \<times> py_value) list \<Rightarrow> bool" where
  "any_flag behavioral =
     list_ex (\<lambda>entry. case snd entry of PBool b \<Rightarrow> b | _ \<Rightarrow> False) behavioral"

definition calculate_pattern_score :: "pattern_result \<Rightarrow> real" where
  "calculate_pattern_score patterns =
     (let score = 0 + 0.2 * normalized (pr_temporal_indicators patterns)
                    + 0.4 * normalized (pr_causal_indicators patterns)
                    + 0.2 * normalized (pr_conditional_indicators patterns)
                    + 0.2 * normalized (pr_consequence_indicators patterns);
          score' = (if any_flag (pr_behavioral_patterns patterns) then score + 0.2 else score)
      in min score' 1)"

definition detect_patterns :: "span \<Rightarrow> string option \<Rightarrow> pattern_result" where
  "detect_patterns s event_type =
     (let txt = lower (get_or (span_text s) []);
          patterns = \<lparr> pr_temporal_indicators = count_indicators txt temporal_lexicon,
                       pr_causal_indicators = count_indicators txt causal_lexicon,
                       pr_conditional_indicators = count_indicators txt conditional_lexicon,
                       pr_consequence_indicators = count_indicators txt consequence_lexicon,
                       pr_behavioral_patterns = detect_behavioral_patterns txt event_type,
                       pr_pattern_score = 0 \<rparr>
      in patterns\<lparr> pr_pattern_score := calculate_pattern_score patterns \<rparr>)"

text \<open>The loop body of \<open>detect_temporal_patterns\<close>.\<close>

definition temporal_decay :: "int \<Rightarrow> real" where
  "temporal_decay distance =
     (if distance = 0 then 1 else 1 / (1 + real_of_int distance / 10))"

definition annotate_temporal :: "int \<Rightarrow> span \<Rightarrow> span" where
  "annotate_temporal event_turn_index s =
     (let span_start = get_or (start_turn_index s) 0;
          span_end = get_or (end_turn_index s) 0;
          rd = (if span_end < event_turn_index
                  then (Precedes, event_turn_index - span_end)
                else if span_start > event_turn_index
                  then (Follows, span_start - event_turn_index)
                else (Overlaps, 0))
      in s\<lparr> temporal_relation := Some (fst rd),
             temporal_distance := Some (snd rd),
             temporal_score := Some (temporal_decay (snd rd)) \<rparr>)"

definition detect_temporal_patterns :: "span list \<Rightarrow> int \<Rightarrow> span list" where
  "detect_temporal_patterns spans event_turn_index =
     map (annotate_temporal event_turn_index) spans"

text \<open>\<open>_is_sequential\<close>.\<close>

definition is_sequential :: "span \<Rightarrow> span \<Rightarrow> bool" where
  "is_sequential span1 span2 =
     (let end1 = get_or (end_turn_index span1) 0;
          start2 = get_or (start_turn_index span2) 0
      in \<bar>start2 - end1\<bar> \<le> 2)"

text \<open>The loop body of \<open>detect_sequential_patterns\<close> at index \<open>i\<close> of the sorted list.\<close>

definition annotate_sequential :: "span list \<Rightarrow> nat \<Rightarrow> span" where
  "annotate_sequential sorted_spans i =
     (let s = sorted_spans ! i;
          from_prev = (if i > 0 \<and> is_sequential (sorted_spans ! (i - 1)) s
                       then 1 else 0 :: nat);
          from_next = (if int i < int (length sorted_spans) - 1
                          \<and> is_sequential s (sorted_spans ! (i + 1))
                       then 1 else 0 :: nat);
          sequential_indicators' = from_prev + from_next
      in s\<lparr> sequential_indicators := Some sequential_indicators',
             sequential_score := Some (min (real sequential_indicators' / 2) 1) \<rparr>)"

definition detect_sequential_patterns :: "span list \<Rightarrow> span list" where
  "detect_sequential_patterns spans =
     (if length spans < 2 then spans
      else let sorted_spans = sort_key (\<lambda>x. get_or (start_turn_index x) 0) spans
           in map (annotate_sequential sorted_spans) [0..<length sorted_spans])"


section \<open>Span extractor (span_extractor.py)\<close>

text \<open>The loop body of \<open>_create_spans_from_turns\<close> at index \<open>i\<close>.\<close>

definition create_span :: "turn list \<Rightarrow> string \<Rightarrow> int \<Rightarrow> int \<Rightarrow> nat \<Rightarrow> span" where
  "create_span turns' tid start_index wsize i =
     (let span_turns = py_slice turns' (int i) (int i + wsize);
          txt = join '' '' (map (\<lambda>t. get_or (turn_text t) []) span_turns);
          spk = map (\<lambda>t. get_or (speaker t) ''unknown'') span_turns;
          ids = map (\<lambda>jt. get_or (turn_id (snd jt)) (IdInt (start_index + int i + int (fst jt))))
                    (enumerate 0 span_turns)
      in empty_span\<lparr>
           span_id := Some (tid @ ''_causal_span_'' @ str_nat i),
           span_text := Some txt,
           start_turn_index := Some (start_index + int i),
           end_turn_index := Some (start_index + int i + wsize - 1),
           turn_ids := Some ids,
           speakers := Some spk,
           transcript_id := Some tid,
           metadata := Some \<lparr> window_size = wsize,
             speaker_distribution =
               (\<lambda>sp. if sp \<in> set spk then Some (count_list spk sp) else None) \<rparr> \<rparr>)"

text \<open>\<open>range(n)\<close> is empty when \<open>n\<close> is not positive.\<close>

definition create_spans_from_turns :: "turn list \<Rightarrow> string \<Rightarrow> int \<Rightarrow> int \<Rightarrow> span list" where
  "create_spans_from_turns turns' tid start_index wsize =
     map (create_span turns' tid start_index wsize)
         [0..<nat (int (length turns') - wsize + 1)]"

section \<open>Causal analyzer (causal_analyzer.py)\<close>

text \<open>\<open>span_copy.update(patterns)\<close>.\<close>

definition merge_patterns :: "span \<Rightarrow> pattern_result \<Rightarrow> span" where
  "merge_patterns s patterns =
     s\<lparr> temporal_indicators := Some (pr_temporal_indicators patterns),
        causal_indicators := Some (pr_causal_indicators patterns),
        conditional_indicators := Some (pr_conditional_indicators patterns),
        consequence_indicators := Some (pr_consequence_indicators patterns),
        behavioral_patterns := Some (pr_behavioral_patterns patterns),
        pattern_score := Some (pr_pattern_score patterns) \<rparr>"

text \<open>The analyzer holds its evidence scorer; the pattern detector has no state.\<close>

definition analyze_causal_spans ::
  "evidence_scorer \<Rightarrow> span list \<Rightarrow> string \<Rightarrow> string option \<Rightarrow> int option \<Rightarrow> int
     \<Rightarrow> span list" where
  "analyze_causal_spans scorer spans query event_type event_turn_index top_k =
     (let analyzed = map (\<lambda>s. merge_patterns s (detect_patterns s event_type)) spans;
          located = (case event_turn_index of
                       None \<Rightarrow> analyzed
                     | Some e \<Rightarrow> detect_temporal_patterns analyzed e);
          chained = detect_sequential_patterns located;
          scored_spans = score_evidence scorer chained query event_type event_turn_index
      in rank_evidence scorer scored_spans (Some top_k))"

section \<open>Context manager (context_manager.py)\<close>

text \<open>
  The fields of \<open>ConversationTurn\<close> carry the prefix \<open>ct_\<close>. A time stamp is a number read
  from the clock, a fresh identifier is a string drawn by \<open>uuid.uuid4()\<close>; both come from
  outside and are arguments of the operations that draw them.
\<close>

record conversation_turn =
  ct_turn_id :: string
  ct_query :: string
  ct_response :: string
  ct_timestamp :: nat
  ct_metadata :: "(string \<times> py_value) list"

record conversation_context =
  conversation_id :: string
  turns :: "conversation_turn list"
  created_at :: nat
  updated_at :: nat
  cc_metadata :: "(string \<times> py_value) list"

record context_manager =
  conversations :: "string \<rightharpoonup> conversation_context"
  max_context_length :: int

text \<open>\<open>ConversationContext.add_turn\<close>, with \<open>metadata or {}\<close>.\<close>

definition conversation_add_turn ::
  "conversation_context \<Rightarrow> string \<Rightarrow> string \<Rightarrow> (string \<times> py_value) list option
     \<Rightarrow> string \<Rightarrow> nat \<Rightarrow> conversation_context" where
  "conversation_add_turn conv query response meta uid now =
     (let t = \<lparr> ct_turn_id = uid, ct_query = query, ct_response = response,
                 ct_timestamp = now, ct_metadata = get_or meta [] \<rparr>
      in conv\<lparr> turns := turns conv @ [t], updated_at := now \<rparr>)"

definition get_recent_turns :: "conversation_context \<Rightarrow> int \<Rightarrow> conversation_turn list" where
  "get_recent_turns conv n =
     (if int (length (turns conv)) > n then py_slice_from (turns conv) (- n) else turns conv)"

definition newline :: string where
  "newline = [CHR 0x0A]"

definition conversation_context_summary :: "conversation_context \<Rightarrow> string" where
  "conversation_context_summary conv =
     (if turns conv = [] then []
      else join newline
             (concat (map (\<lambda>t. [''Q: '' @ ct_query t,
                                 ''A: '' @ py_slice_to (ct_response t) 200 @ ''...''])
                          (get_recent_turns conv 3))))"

definition get_or_create_conversation ::
  "context_manager \<Rightarrow> string option \<Rightarrow> string \<Rightarrow> nat
     \<Rightarrow> conversation_context \<times> context_manager" where
  "get_or_create_conversation self cid_opt uid now =
     (let cid = (case cid_opt of None \<Rightarrow> uid | Some c \<Rightarrow> c) in
      case conversations self cid of
        Some conv \<Rightarrow> (conv, self)
      | None \<Rightarrow>
          (let conv = \<lparr> conversation_id = cid, turns = [], created_at = now,
                        updated_at = now, cc_metadata = [] \<rparr>
           in (conv, self\<lparr> conversations := (conversations self)(cid \<mapsto> conv) \<rparr>)))"

text \<open>
  \<open>ContextManager.add_turn\<close>: the conversation object is mutated in place, so the
  dictionary entry holds the new turn list.
\<close>

definition add_turn ::
  "context_manager \<Rightarrow> string \<Rightarrow> string \<Rightarrow> string \<Rightarrow> (string \<times> py_value) list option
     \<Rightarrow> string \<Rightarrow> nat \<Rightarrow> context_manager" where
  "add_turn self cid query response meta uid now =
     (let cs = get_or_create_conversation self (Some cid) uid now;
          conv = conversation_add_turn (fst cs) query response meta uid now
      in (snd cs)\<lparr> conversations := (conversations (snd cs))(cid \<mapsto> conv) \<rparr>)"

definition get_context :: "context_manager \<Rightarrow> string \<Rightarrow> conversation_context option" where
  "get_context self cid = conversations self cid"

definition get_context_summary ::
  "context_manager \<Rightarrow> string \<Rightarrow> string \<Rightarrow> nat \<Rightarrow> string \<times> context_manager" where
  "get_context_summary self cid uid now =
     (let cs = get_or_create_conversation self (Some cid) uid now
      in (conversation_context_summary (fst cs), snd cs))"

definition clear_conversation :: "context_manager \<Rightarrow> string \<Rightarrow> context_manager" where
  "clear_conversation self cid = self\<lparr> conversations := (conversations self)(cid := None) \<rparr>"

definition followup_indicators :: "string list" where
  "followup_indicators =
     [''also'', ''additionally'', ''furthermore'', ''moreover'',
      ''what about'', ''how about'', ''tell me more'', ''can you'',
      ''what else'', ''another'', ''other'', ''different'',
      ''it'', ''that'', ''this'', ''these'', ''those'', ''they'']"

definition pronouns :: "string list" where
  "pronouns = [''it'', ''that'', ''this'', ''these'', ''those'', ''they'', ''them'']"

definition is_followup :: "context_manager \<Rightarrow> string \<Rightarrow> string \<Rightarrow> bool" where
  "is_followup self query cid =
     (case get_context self cid of
        None \<Rightarrow> False
      | Some conversation \<Rightarrow>
          if turns conversation = [] then False
          else
            (let query_lower = lower query in
             if list_ex (\<lambda>indicator. str_contains indicator query_lower) followup_indicators
               then True
             else if list_ex (\<lambda>word. List.member pronouns word) (py_split query_lower)
               then True
             else if length (py_split query) < 5 then True
             else False))"


section \<open>External collaborators\<close>

text \<open>
  The query parser, the retrieval backend and the explanation service are consumed through
  their contracts. A call to the backend or to the service either returns or raises; the
  exception is the left summand. \<open>fresh_conversation_id\<close> and \<open>fresh_turn_id\<close> are the
  values \<open>uuid.uuid4()\<close> yields during the request, \<open>clock\<close> is what \<open>datetime.now()\<close> reads.
\<close>

datatype py_error = ExternalServiceError string

record parsed_query =
  pq_event_type :: "string option"
  pq_intent :: "string option"

record explanation_result =
  explanation :: string
  citations :: "nat list"

record outside =
  fresh_conversation_id :: string
  fresh_turn_id :: string
  clock :: nat
  parse_query :: "string \<Rightarrow> parsed_query"
  retrieve :: "string \<Rightarrow> int \<Rightarrow> int \<Rightarrow> py_error + span list"
  generate_with_citations ::
    "string \<Rightarrow> span list \<Rightarrow> string option \<Rightarrow> py_error + explanation_result"

text \<open>An entry of the explicit context list: a dictionary read with \<open>get\<close>.\<close>

record context_item =
  ci_query :: "string option"
  ci_response :: "string option"
  ci_metadata :: "(string \<times> py_value) list option"

text \<open>\<open>RetrievalPipeline.retrieve_with_context\<close>; \<open>a or b\<close> on strings is \<open>py_or\<close>.\<close>

definition py_or :: "string \<Rightarrow> string \<Rightarrow> string" where
  "py_or a b = (if a \<noteq> [] then a else b)"

definition retrieve_with_context ::
  "outside \<Rightarrow> string \<Rightarrow> context_item list \<Rightarrow> int \<Rightarrow> int \<Rightarrow> py_error + span list" where
  "retrieve_with_context env query ctx top_k rerank_top_k =
     (let enhanced_query =
            (if ctx \<noteq> [] then
               (let context_texts =
                      map (\<lambda>item. py_or (get_or (ci_query item) []) (get_or (ci_response item) []))
                          ctx;
                    context_summary = join '' '' (py_slice_from context_texts (- 3))
                in context_summary @ '' '' @ query)
             else query)
      in retrieve env enhanced_query top_k rerank_top_k)"

section \<open>Follow-up processor (followup_processor.py)\<close>

definition enhance_query_with_context :: "string \<Rightarrow> context_item list \<Rightarrow> string" where
  "enhance_query_with_context query ctx =
     (if ctx = [] then query
      else
        (let context_queries = map (\<lambda>item. get_or (ci_query item) []) ctx;
             enhanced_parts = [];
             enhanced_parts =
               (if context_queries \<noteq> [] then
                  enhanced_parts @
                    [''Previous queries: '' @ join ''; '' (py_slice_from context_queries (- 2))]
                else enhanced_parts);
             enhanced_parts = enhanced_parts @ [''Current query: '' @ query]
         in join ''. '' enhanced_parts))"

record followup_result =
  fu_query :: string
  fu_enhanced_query :: string
  fu_is_followup :: bool
  fu_parsed_query :: parsed_query
  fu_explanation :: string
  fu_evidence :: "span list"
  fu_citations :: "nat list"
  fu_evidence_count :: nat
  fu_context_used :: bool
  fu_context_turns :: nat

text \<open>
  \<open>process_followup\<close> returns its result, or the exception an external call raised, and
  the context manager as the call leaves it. The statements before the first external
  call do not change the context manager. \<open>resolve_context\<close> is its first statement: the
  explicit context, or else the last three turns of the conversation.
\<close>

definition resolve_context ::
  "context_manager \<Rightarrow> string \<Rightarrow> context_item list option \<Rightarrow> context_item list" where
  "resolve_context self cid context_opt =
     (case context_opt of
        Some c \<Rightarrow> c
      | None \<Rightarrow>
          (case get_context self cid of
             Some conversation \<Rightarrow>
               map (\<lambda>t. \<lparr> ci_query = Some (ct_query t),
                           ci_response = Some (ct_response t),
                           ci_metadata = Some (ct_metadata t) \<rparr>)
                   (get_recent_turns conversation 3)
           | None \<Rightarrow> []))"

definition process_followup ::
  "outside \<Rightarrow> evidence_scorer \<Rightarrow> context_manager \<Rightarrow> string \<Rightarrow> string
     \<Rightarrow> context_item list option \<Rightarrow> (py_error + followup_result) \<times> context_manager" where
  "process_followup env analyzer self query cid context_opt =
     (let ctx = resolve_context self cid context_opt;
          followup = is_followup self query cid;
          enhanced_query = enhance_query_with_context query ctx;
          parsed = parse_query env enhanced_query
      in case retrieve_with_context env enhanced_query ctx 20 10 of
           Inl e \<Rightarrow> (Inl e, self)
         | Inr retrieved_spans \<Rightarrow>
             (let analyzed_spans =
                    analyze_causal_spans analyzer retrieved_spans enhanced_query
                      (pq_event_type parsed) None 10;
                  summary = get_context_summary self cid (fresh_conversation_id env) (clock env);
                  context_summary = fst summary;
                  self1 = snd summary
              in case generate_with_citations env enhanced_query analyzed_spans
                        (Some context_summary) of
                   Inl e \<Rightarrow> (Inl e, self1)
                 | Inr explanation_result \<Rightarrow>
                     (let response =
                            \<lparr> fu_query = query,
                              fu_enhanced_query = enhanced_query,
                              fu_is_followup = followup,
                              fu_parsed_query = parsed,
                              fu_explanation = explanation explanation_result,
                              fu_evidence = analyzed_spans,
                              fu_citations = citations explanation_result,
                              fu_evidence_count = length analyzed_spans,
                              fu_context_used = (length ctx > 0),
                              fu_context_turns = length ctx \<rparr>;
                          self2 = add_turn self1 cid query (explanation explanation_result)
                                    (Some [(''is_followup'', PBool followup),
                                           (''evidence_count'', PInt (int (length analyzed_spans))),
                                           (''enhanced_query'', PStr enhanced_query)])
                                    (fresh_turn_id env) (clock env)
                      in (Inr response, self2))))"

text \<open>
  What the two \<open>format_response\<close> methods return: the answer, the first ten evidence
  spans, the citations and the metadata dictionary. An evidence entry is kept as the span
  it is built from.
\<close>

record formatted_response =
  response :: string
  evidence :: "span list"
  fr_citations :: "nat list"
  fr_metadata :: "(string \<times> py_value) list"

definition opt_str :: "string option \<Rightarrow> py_value" where
  "opt_str v = (case v of None \<Rightarrow> PNone | Some x \<Rightarrow> PStr x)"

definition followup_format_response :: "followup_result \<Rightarrow> formatted_response" where
  "followup_format_response result =
     \<lparr> response = fu_explanation result,
       evidence = py_slice_to (fu_evidence result) 10,
       fr_citations = fu_citations result,
       fr_metadata =
         [(''query'', PStr (fu_query result)),
          (''enhanced_query'', PStr (fu_enhanced_query result)),
          (''is_followup'', PBool (fu_is_followup result)),
          (''event_type'', opt_str (pq_event_type (fu_parsed_query result))),
          (''context_used'', PBool (fu_context_used result)),
          (''context_turns'', PInt (int (fu_context_turns result))),
          (''evidence_count'', PInt (int (fu_evidence_count result)))] \<rparr>"

section \<open>Task processors (task1_processor.py, task2_processor.py)\<close>

text \<open>
  \<open>Task1Processor.process_query\<close> through \<open>generate_structured_explanation\<close> and
  \<open>generate_explanation\<close>: retrieval, analysis, then the explanation service. The summary,
  key factors and mechanisms cut out of the explanation text are not part of the record.
\<close>

record task1_result =
  t1_query :: string
  t1_parsed_query :: parsed_query
  t1_evidence :: "span list"
  t1_citations :: "nat list"
  t1_evidence_count :: nat
  t1_full_explanation :: string

definition task1_process_query ::
  "outside \<Rightarrow> evidence_scorer \<Rightarrow> string \<Rightarrow> py_error + task1_result" where
  "task1_process_query env analyzer query =
     (let parsed = parse_query env query in
      case retrieve env query 20 10 of
        Inl e \<Rightarrow> Inl e
      | Inr retrieved_spans \<Rightarrow>
          (let analyzed_spans =
                 analyze_causal_spans analyzer retrieved_spans query (pq_event_type parsed) None 10
           in case generate_with_citations env query analyzed_spans None of
                Inl e \<Rightarrow> Inl e
              | Inr explanation_result \<Rightarrow>
                  Inr \<lparr> t1_query = query,
                        t1_parsed_query = parsed,
                        t1_evidence = analyzed_spans,
                        t1_citations = citations explanation_result,
                        t1_evidence_count = length analyzed_spans,
                        t1_full_explanation = explanation explanation_result \<rparr>))"

definition task1_format_response :: "task1_result \<Rightarrow> formatted_response" where
  "task1_format_response result =
     \<lparr> response = t1_full_explanation result,
       evidence = py_slice_to (t1_evidence result) 10,
       fr_citations = t1_citations result,
       fr_metadata =
         [(''query'', PStr (t1_query result)),
          (''event_type'', opt_str (pq_event_type (t1_parsed_query result))),
          (''intent'', opt_str (pq_intent (t1_parsed_query result))),
          (''evidence_count'', PInt (int (t1_evidence_count result)))] \<rparr>"

text \<open>
  \<open>Task2Processor.process_query\<close>, the orchestrator. Its first statement gets or creates
  the conversation when no id is given; its test
  \<open>is_followup and (context or self.context_manager.get_context(conversation_id))\<close>
  chooses the follow-up path.
\<close>

definition resolve_conversation_id ::
  "outside \<Rightarrow> context_manager \<Rightarrow> string option \<Rightarrow> string \<times> context_manager" where
  "resolve_conversation_id env self cid_opt =
     (case cid_opt of
        Some c \<Rightarrow> (c, self)
      | None \<Rightarrow>
          (let cs = get_or_create_conversation self None
                      (fresh_conversation_id env) (clock env)
           in (conversation_id (fst cs), snd cs)))"

definition takes_followup_path ::
  "context_manager \<Rightarrow> string \<Rightarrow> string \<Rightarrow> context_item list option \<Rightarrow> bool" where
  "takes_followup_path self query cid context_opt =
     (is_followup self query cid \<and>
      ((case context_opt of None \<Rightarrow> False | Some c \<Rightarrow> c \<noteq> [])
       \<or> get_context self cid \<noteq> None))"

definition process_query ::
  "outside \<Rightarrow> evidence_scorer \<Rightarrow> context_manager \<Rightarrow> string \<Rightarrow> string option
     \<Rightarrow> context_item list option \<Rightarrow> (py_error + formatted_response) \<times> context_manager" where
  "process_query env analyzer self query cid_opt context_opt =
     (let started = resolve_conversation_id env self cid_opt;
          cid = fst started;
          self1 = snd started
      in if takes_followup_path self1 query cid context_opt
         then
           (case process_followup env analyzer self1 query cid context_opt of
              (Inl e, self2) \<Rightarrow> (Inl e, self2)
            | (Inr result, self2) \<Rightarrow> (Inr (followup_format_response result), self2))
         else
           (case task1_process_query env analyzer query of
              Inl e \<Rightarrow> (Inl e, self1)
            | Inr result \<Rightarrow>
                (let formatted = task1_format_response result;
                     self2 = add_turn self1 cid query (response formatted)
                               (Some [(''is_followup'', PBool False),
                                      (''event_type'',
                                         opt_str (pq_event_type (t1_parsed_query result))),
                                      (''evidence_count'',
                                         PInt (int (t1_evidence_count result)))])
                               (fresh_turn_id env) (clock env);
                     formatted' = formatted\<lparr> fr_metadata :=
                                    dict_set (dict_set (fr_metadata formatted)
                                                ''conversation_id'' (PStr cid))
                                             ''is_followup'' (PBool False) \<rparr>
                 in (Inr formatted', self2))))"

text \<open>The turn log of a conversation; a conversation that does not exist has none.\<close>

definition turn_log :: "context_manager \<Rightarrow> string \<Rightarrow> conversation_turn list" where
  "turn_log self cid = (case conversations self cid of None \<Rightarrow> [] | Some conv \<Rightarrow> turns conv)"


text \<open>
  The follow-up classifier as the specification words it: the cue phrases are the
  discourse connectives and the reference phrases, and a pronoun counts only as a whole
  whitespace-separated word.
\<close>

definition cue_phrases :: "string list" where
  "cue_phrases =
     [''also'', ''additionally'', ''furthermore'', ''moreover'',
      ''what about'', ''how about'', ''tell me more'', ''can you'',
      ''what else'', ''another'', ''other'', ''different'']"

definition is_followup_as_specified :: "context_manager \<Rightarrow> string \<Rightarrow> string \<Rightarrow> bool" where
  "is_followup_as_specified self query cid =
     (turn_log self cid \<noteq> [] \<and>
      (list_ex (\<lambda>cue. str_contains cue (lower query)) cue_phrases
       \<or> list_ex (\<lambda>word. List.member pronouns word) (py_split (lower query))
       \<or> length (py_split query) < 5))"

text \<open>
  A behavioral flag fires when one of the keywords of its lexicon entry occurs in the
  text. The flags of a span are those of the six behavioral entries and, when a
  non-empty event type is given, those of the entry chosen for the event type.
\<close>

definition fired :: "string \<Rightarrow> (string \<times> string list) list \<Rightarrow> bool" where
  "fired txt lexicon = list_ex (\<lambda>entry. count_indicators txt (snd entry) > 0) lexicon"

definition behavioral_flag_fired :: "string \<Rightarrow> string option \<Rightarrow> bool" where
  "behavioral_flag_fired txt event_type =
     (fired txt behavioral_lexicon \<or>
      (case event_type of
         None \<Rightarrow> False
       | Some et \<Rightarrow> et \<noteq> [] \<and> fired txt (get_event_specific_patterns et)))"

text \<open>
  Two spans are identical except in their sequential annotation when they agree once
  the two keys are removed.
\<close>

definition clear_sequential :: "span \<Rightarrow> span" where
  "clear_sequential s = s\<lparr> sequential_indicators := None, sequential_score := None \<rparr>"


section \<open>Sorting\<close>

lemma map_insort_key:
  "map g (insort_key (\<lambda>x. f (g x)) x xs) = insort_key f (g x) (map g xs)"
  by (induction xs) simp_all

lemma map_sort_key: "map g (sort_key (\<lambda>x. f (g x)) xs) = sort_key f (map g xs)"
  by (induction xs) (simp_all add: map_insort_key)

lemma map_py_sort_reverse:
  "map g (py_sort_reverse (\<lambda>x. f (g x)) xs) = py_sort_reverse f (map g xs)"
  by (simp add: py_sort_reverse_def rev_map map_sort_key [symmetric])

lemma mset_py_sort_reverse: "mset (py_sort_reverse f xs) = mset xs"
  by (simp add: py_sort_reverse_def)

lemma py_sort_reverse_stable:
  "filter (\<lambda>y. f y = k) (py_sort_reverse f xs) = filter (\<lambda>y. f y = k) xs"
proof -
  have "filter (\<lambda>y. f y = k) (py_sort_reverse f xs)
          = rev (filter (\<lambda>y. f y = k) (sort_key f (rev xs)))"
    by (simp add: py_sort_reverse_def rev_filter)
  also have "\<dots> = rev (filter (\<lambda>y. f y = k) (rev xs))"
    by (simp only: sort_key_stable)
  also have "\<dots> = filter (\<lambda>y. f y = k) xs"
    by (simp add: rev_filter)
  finally show ?thesis .
qed

lemma py_sort_reverse_sorted:
  "sorted_wrt (\<lambda>a b. f a \<ge> f b) (py_sort_reverse f xs)"
proof -
  have "sorted (map f (sort_key f (rev xs)))" by simp
  then have "sorted_wrt (\<lambda>a b. f a \<le> f b) (sort_key f (rev xs))"
    by (simp add: sorted_map)
  then show ?thesis
    by (simp add: py_sort_reverse_def sorted_wrt_rev)
qed

section \<open>Properties of the evidence scorer\<close>

lemma evidence_key_score_span:
  "evidence_score (score_span self s) = Some (evidence_key (score_span self s))"
  by (simp add: score_span_def evidence_key_def get_or_def Let_def)

text \<open>
  Claim C7. Whatever the weights, the list \<open>score_evidence\<close> returns is sorted by
  evidence score, highest first; every span of it carries its score; and the spans with
  one and the same score \<open>k\<close> are the scored copies of the input spans with that score,
  in the order of the input. The order of the result is so fixed by the input.
\<close>

theorem score_evidence_sorted_stable:
  "sorted_wrt (\<lambda>a b. evidence_key a \<ge> evidence_key b)
      (score_evidence self spans query event_type event_turn_index)
   \<and> map evidence_score (score_evidence self spans query event_type event_turn_index)
       = map (\<lambda>s. Some (evidence_key s))
           (score_evidence self spans query event_type event_turn_index)
   \<and> (\<forall>k. filter (\<lambda>s. evidence_key s = k)
              (score_evidence self spans query event_type event_turn_index)
           = map (score_span self)
               (filter (\<lambda>s. evidence_key (score_span self s) = k) spans))"
proof (intro conjI allI)
  show "sorted_wrt (\<lambda>a b. evidence_key a \<ge> evidence_key b)
      (score_evidence self spans query event_type event_turn_index)"
    by (simp add: score_evidence_def py_sort_reverse_sorted)
next
  have "set (score_evidence self spans query event_type event_turn_index)
          = score_span self ` set spans"
    by (simp add: score_evidence_def py_sort_reverse_def)
  then have "\<forall>x \<in> set (score_evidence self spans query event_type event_turn_index).
               evidence_score x = Some (evidence_key x)"
    by (auto simp: evidence_key_score_span)
  then show "map evidence_score (score_evidence self spans query event_type event_turn_index)
       = map (\<lambda>s. Some (evidence_key s))
           (score_evidence self spans query event_type event_turn_index)"
    by simp
next
  fix k
  show "filter (\<lambda>s. evidence_key s = k)
              (score_evidence self spans query event_type event_turn_index)
           = map (score_span self)
               (filter (\<lambda>s. evidence_key (score_span self s) = k) spans)"
    by (simp add: score_evidence_def py_sort_reverse_stable filter_map comp_def)
qed

lemma score_span_default:
  "score_span default_scorer s =
     s\<lparr> evidence_score := Some
            (0.4 * (case relevance_score s of Some r \<Rightarrow> r
                    | None \<Rightarrow> (case combined_score s of Some c \<Rightarrow> c | None \<Rightarrow> 0))
             + 0.3 * (case temporal_score s of Some t \<Rightarrow> t | None \<Rightarrow> 0.5)
             + 0.2 * (case pattern_score s of Some p \<Rightarrow> p | None \<Rightarrow> 0)
             + 0.1 * (case similarity_score s of Some m \<Rightarrow> m | None \<Rightarrow> 0)),
        evidence_components := Some
            \<lparr> relevance = (case relevance_score s of Some r \<Rightarrow> r
                    | None \<Rightarrow> (case combined_score s of Some c \<Rightarrow> c | None \<Rightarrow> 0)),
              temporal = (case temporal_score s of Some t \<Rightarrow> t | None \<Rightarrow> 0.5),
              pattern = (case pattern_score s of Some p \<Rightarrow> p | None \<Rightarrow> 0),
              similarity = (case similarity_score s of Some m \<Rightarrow> m | None \<Rightarrow> 0) \<rparr> \<rparr>"
  by (cases "relevance_score s"; cases "combined_score s"; cases "temporal_score s";
      cases "pattern_score s"; cases "similarity_score s")
     (simp_all add: score_span_def default_scorer_def get_or_def Let_def)

text \<open>
  Claim C1. Under the default weights the spans \<open>score_evidence\<close> returns are the
  input spans, each with the evidence score
  \<open>0.4 * relevance + 0.3 * temporal + 0.2 * pattern + 0.1 * similarity\<close> and the four
  components attached, where the relevance is the relevance score, else the combined
  score, else 0, the temporal score is 0.5 when absent, and pattern and similarity are 0
  when absent. A span with relevance 1 and the other three scores 0 scores 0.4.
\<close>

theorem score_evidence_weighted_sum:
  "mset (score_evidence default_scorer spans query event_type event_turn_index) =
     mset (map (\<lambda>s. s\<lparr> evidence_score := Some
            (0.4 * (case relevance_score s of Some r \<Rightarrow> r
                    | None \<Rightarrow> (case combined_score s of Some c \<Rightarrow> c | None \<Rightarrow> 0))
             + 0.3 * (case temporal_score s of Some t \<Rightarrow> t | None \<Rightarrow> 0.5)
             + 0.2 * (case pattern_score s of Some p \<Rightarrow> p | None \<Rightarrow> 0)
             + 0.1 * (case similarity_score s of Some m \<Rightarrow> m | None \<Rightarrow> 0)),
        evidence_components := Some
            \<lparr> relevance = (case relevance_score s of Some r \<Rightarrow> r
                    | None \<Rightarrow> (case combined_score s of Some c \<Rightarrow> c | None \<Rightarrow> 0)),
              temporal = (case temporal_score s of Some t \<Rightarrow> t | None \<Rightarrow> 0.5),
              pattern = (case pattern_score s of Some p \<Rightarrow> p | None \<Rightarrow> 0),
              similarity = (case similarity_score s of Some m \<Rightarrow> m | None \<Rightarrow> 0) \<rparr> \<rparr>) spans)
   \<and> map evidence_score
         (score_evidence default_scorer
            [s\<lparr> relevance_score := Some 1, temporal_score := Some 0,
                pattern_score := Some 0, similarity_score := Some 0 \<rparr>]
            query event_type event_turn_index) = [Some 0.4]"
proof
  have "score_span default_scorer = (\<lambda>s. s\<lparr> evidence_score := Some
            (0.4 * (case relevance_score s of Some r \<Rightarrow> r
                    | None \<Rightarrow> (case combined_score s of Some c \<Rightarrow> c | None \<Rightarrow> 0))
             + 0.3 * (case temporal_score s of Some t \<Rightarrow> t | None \<Rightarrow> 0.5)
             + 0.2 * (case pattern_score s of Some p \<Rightarrow> p | None \<Rightarrow> 0)
             + 0.1 * (case similarity_score s of Some m \<Rightarrow> m | None \<Rightarrow> 0)),
        evidence_components := Some
            \<lparr> relevance = (case relevance_score s of Some r \<Rightarrow> r
                    | None \<Rightarrow> (case combined_score s of Some c \<Rightarrow> c | None \<Rightarrow> 0)),
              temporal = (case temporal_score s of Some t \<Rightarrow> t | None \<Rightarrow> 0.5),
              pattern = (case pattern_score s of Some p \<Rightarrow> p | None \<Rightarrow> 0),
              similarity = (case similarity_score s of Some m \<Rightarrow> m | None \<Rightarrow> 0) \<rparr> \<rparr>)"
    by (rule ext) (rule score_span_default)
  then show "mset (score_evidence default_scorer spans query event_type event_turn_index) =
     mset (map (\<lambda>s. s\<lparr> evidence_score := Some
            (0.4 * (case relevance_score s of Some r \<Rightarrow> r
                    | None \<Rightarrow> (case combined_score s of Some c \<Rightarrow> c | None \<Rightarrow> 0))
             + 0.3 * (case temporal_score s of Some t \<Rightarrow> t | None \<Rightarrow> 0.5)
             + 0.2 * (case pattern_score s of Some p \<Rightarrow> p | None \<Rightarrow> 0)
             + 0.1 * (case similarity_score s of Some m \<Rightarrow> m | None \<Rightarrow> 0)),
        evidence_components := Some
            \<lparr> relevance = (case relevance_score s of Some r \<Rightarrow> r
                    | None \<Rightarrow> (case combined_score s of Some c \<Rightarrow> c | None \<Rightarrow> 0)),
              temporal = (case temporal_score s of Some t \<Rightarrow> t | None \<Rightarrow> 0.5),
              pattern = (case pattern_score s of Some p \<Rightarrow> p | None \<Rightarrow> 0),
              similarity = (case similarity_score s of Some m \<Rightarrow> m | None \<Rightarrow> 0) \<rparr> \<rparr>) spans)"
    by (simp only: score_evidence_def mset_py_sort_reverse)
next
  show "map evidence_score
         (score_evidence default_scorer
            [s\<lparr> relevance_score := Some 1, temporal_score := Some 0,
                pattern_score := Some 0, similarity_score := Some 0 \<rparr>]
            query event_type event_turn_index) = [Some 0.4]"
    by (simp add: score_evidence_def py_sort_reverse_def score_span_default)
qed

lemma clear_sequential_score_span:
  "clear_sequential (score_span self s) = score_span self (clear_sequential s)"
  by (simp add: clear_sequential_def score_span_def Let_def)

lemma evidence_key_clear_sequential: "evidence_key (clear_sequential s) = evidence_key s"
  by (simp add: clear_sequential_def evidence_key_def)

lemma evidence_score_clear_sequential: "evidence_score (clear_sequential s) = evidence_score s"
  by (simp add: clear_sequential_def)

lemma clear_sequential_sort:
  "map clear_sequential (py_sort_reverse evidence_key xs)
     = py_sort_reverse evidence_key (map clear_sequential xs)"
  using map_py_sort_reverse [of clear_sequential evidence_key xs]
  by (simp add: evidence_key_clear_sequential)

lemma clear_sequential_score_evidence:
  "map clear_sequential (score_evidence self xs q et ei)
     = score_evidence self (map clear_sequential xs) q et ei"
  by (simp add: score_evidence_def clear_sequential_sort clear_sequential_score_span comp_def)

lemma map_py_slice_to: "map g (py_slice_to xs k) = py_slice_to (map g xs) k"
  by (simp add: py_slice_to_def take_map)

lemma clear_sequential_rank_evidence:
  "map clear_sequential (rank_evidence self xs k)
     = rank_evidence self (map clear_sequential xs) k"
proof -
  have a: "list_all (\<lambda>s. evidence_score s \<noteq> None) (map clear_sequential xs)
             = list_all (\<lambda>s. evidence_score s \<noteq> None) xs"
    by (simp add: list_all_iff evidence_score_clear_sequential)
  show ?thesis
    unfolding rank_evidence_def Let_def a
    by (simp add: clear_sequential_score_evidence clear_sequential_sort map_py_slice_to
        split: option.split)
qed

text \<open>
  Claim C10. When two span lists agree position by position except in the keys
  \<open>sequential_score\<close> and \<open>sequential_indicators\<close>, \<open>score_evidence\<close> gives the same
  evidence scores in the same order, and its result and the ranking \<open>rank_evidence\<close>
  makes of it agree except in those two keys: the sequential annotation reaches neither
  the score nor the rank of a span.
\<close>

theorem evidence_independent_of_sequential:
  assumes "map clear_sequential xs = map clear_sequential ys"
  shows "map evidence_score (score_evidence self xs q et ei)
           = map evidence_score (score_evidence self ys q et ei)
       \<and> map clear_sequential (score_evidence self xs q et ei)
           = map clear_sequential (score_evidence self ys q et ei)
       \<and> map clear_sequential (rank_evidence self (score_evidence self xs q et ei) k)
           = map clear_sequential (rank_evidence self (score_evidence self ys q et ei) k)"
proof -
  have r: "map clear_sequential (score_evidence self xs q et ei)
           = map clear_sequential (score_evidence self ys q et ei)"
    using assms by (simp add: clear_sequential_score_evidence)
  have "map evidence_score (map clear_sequential (score_evidence self xs q et ei))
           = map evidence_score (map clear_sequential (score_evidence self ys q et ei))"
    by (simp only: r)
  then have e: "map evidence_score (score_evidence self xs q et ei)
           = map evidence_score (score_evidence self ys q et ei)"
    by (simp add: comp_def evidence_score_clear_sequential)
  have k: "map clear_sequential (rank_evidence self (score_evidence self xs q et ei) k)
           = map clear_sequential (rank_evidence self (score_evidence self ys q et ei) k)"
    by (simp only: clear_sequential_rank_evidence r)
  from e r k show ?thesis by simp
qed

theorem evidence_independent_of_sequential_witness:
  "map clear_sequential [empty_span\<lparr> relevance_score := Some 1, sequential_indicators := Some 2,
                                    sequential_score := Some 1 \<rparr>]
     = map clear_sequential [empty_span\<lparr> relevance_score := Some 1 \<rparr>]
   \<and> map evidence_score (score_evidence default_scorer
         [empty_span\<lparr> relevance_score := Some 1, sequential_indicators := Some 2,
                      sequential_score := Some 1 \<rparr>] [] None None)
     = map evidence_score (score_evidence default_scorer
         [empty_span\<lparr> relevance_score := Some 1 \<rparr>] [] None None)"
proof -
  have h: "map clear_sequential [empty_span\<lparr> relevance_score := Some 1,
               sequential_indicators := Some 2, sequential_score := Some 1 \<rparr>]
     = map clear_sequential [empty_span\<lparr> relevance_score := Some 1 \<rparr>]"
    by (simp add: clear_sequential_def empty_span_def)
  from evidence_independent_of_sequential [OF h, of default_scorer "[]" None None None] h
  show ?thesis by simp
qed


section \<open>Properties of the pattern detector\<close>

lemma normalized_bounds: "0 \<le> normalized n \<and> normalized n \<le> 1"
  by (simp add: normalized_def)

lemma calculate_pattern_score_bounds:
  "0 \<le> calculate_pattern_score p \<and> calculate_pattern_score p \<le> 1"
proof -
  have a: "0 \<le> normalized (pr_temporal_indicators p)"
    and b: "0 \<le> normalized (pr_causal_indicators p)"
    and c: "0 \<le> normalized (pr_conditional_indicators p)"
    and d: "0 \<le> normalized (pr_consequence_indicators p)"
    by (simp_all add: normalized_bounds)
  then show ?thesis
    by (simp add: calculate_pattern_score_def Let_def min_def)
qed

lemma behavioral_flags_base:
  "foldl (record_pattern txt []) [] behavioral_lexicon =
     [(''hesitation'', PBool (count_indicators txt [''um'', ''uh'', ''well'', ''let me think'', ''hmm''] > 0)),
      (''hesitation_count'', PInt (int (count_indicators txt [''um'', ''uh'', ''well'', ''let me think'', ''hmm'']))),
      (''frustration'', PBool (count_indicators txt [''frustrated'', ''annoyed'', ''upset'', ''disappointed''] > 0)),
      (''frustration_count'', PInt (int (count_indicators txt [''frustrated'', ''annoyed'', ''upset'', ''disappointed'']))),
      (''repetition'', PBool (count_indicators txt [''again'', ''repeat'', ''same'', ''once more''] > 0)),
      (''repetition_count'', PInt (int (count_indicators txt [''again'', ''repeat'', ''same'', ''once more'']))),
      (''escalation_signals'', PBool (count_indicators txt [''supervisor'', ''manager'', ''escalate'', ''complaint'', ''formal''] > 0)),
      (''escalation_signals_count'', PInt (int (count_indicators txt [''supervisor'', ''manager'', ''escalate'', ''complaint'', ''formal'']))),
      (''refund_signals'', PBool (count_indicators txt [''refund'', ''money back'', ''return'', ''cancel'', ''chargeback''] > 0)),
      (''refund_signals_count'', PInt (int (count_indicators txt [''refund'', ''money back'', ''return'', ''cancel'', ''chargeback'']))),
      (''churn_signals'', PBool (count_indicators txt [''cancel'', ''close account'', ''switch'', ''leave'', ''terminate''] > 0)),
      (''churn_signals_count'', PInt (int (count_indicators txt [''cancel'', ''close account'', ''switch'', ''leave'', ''terminate''])))]"
  by (simp add: behavioral_lexicon_def record_pattern_def Let_def)


lemma any_flag_base:
  "any_flag (foldl (record_pattern txt []) [] behavioral_lexicon) = fired txt behavioral_lexicon"
  unfolding behavioral_flags_base
  by (simp add: any_flag_def fired_def behavioral_lexicon_def)

lemma any_flag_event:
  "any_flag (foldl (record_pattern txt ''event_'')
               (foldl (record_pattern txt []) [] behavioral_lexicon)
               (get_event_specific_patterns et))
     = (fired txt behavioral_lexicon \<or> fired txt (get_event_specific_patterns et))"
  unfolding behavioral_flags_base
  by (simp add: get_event_specific_patterns_def Let_def record_pattern_def any_flag_def
      fired_def behavioral_lexicon_def)

lemma any_flag_detect:
  "any_flag (detect_behavioral_patterns txt event_type) = behavioral_flag_fired txt event_type"
proof (cases event_type)
  case None
  then show ?thesis
    by (simp add: detect_behavioral_patterns_def behavioral_flag_fired_def any_flag_base)
next
  case (Some et)
  then show ?thesis
    by (simp add: detect_behavioral_patterns_def behavioral_flag_fired_def any_flag_base
        any_flag_event Let_def)
qed

text \<open>
  Claim C5. For every span and optional event type the pattern score is the sum of
  \<open>min(count / 5, 1)\<close> of the temporal, causal, conditional and consequence counts,
  weighted 0.2, 0.4, 0.2 and 0.2, plus 0.2 when a behavioral flag fired (a flag of the six
  behavioral entries, or of the entry for the event type when one is given), capped at 1;
  the counts are those of the four lexicons in the lower-cased text; the score lies in
  [0, 1].
\<close>

theorem pattern_score_weighted_sum:
  "pr_pattern_score (detect_patterns s event_type) =
     min (0.2 * min (real (pr_temporal_indicators (detect_patterns s event_type)) / 5) 1
          + 0.4 * min (real (pr_causal_indicators (detect_patterns s event_type)) / 5) 1
          + 0.2 * min (real (pr_conditional_indicators (detect_patterns s event_type)) / 5) 1
          + 0.2 * min (real (pr_consequence_indicators (detect_patterns s event_type)) / 5) 1
          + (if behavioral_flag_fired (lower (get_or (span_text s) [])) event_type
             then 0.2 else 0)) 1
   \<and> any_flag (pr_behavioral_patterns (detect_patterns s event_type))
        = behavioral_flag_fired (lower (get_or (span_text s) [])) event_type
   \<and> pr_temporal_indicators (detect_patterns s event_type)
        = count_indicators (lower (get_or (span_text s) [])) temporal_lexicon
   \<and> pr_causal_indicators (detect_patterns s event_type)
        = count_indicators (lower (get_or (span_text s) [])) causal_lexicon
   \<and> pr_conditional_indicators (detect_patterns s event_type)
        = count_indicators (lower (get_or (span_text s) [])) conditional_lexicon
   \<and> pr_consequence_indicators (detect_patterns s event_type)
        = count_indicators (lower (get_or (span_text s) [])) consequence_lexicon
   \<and> 0 \<le> pr_pattern_score (detect_patterns s event_type)
   \<and> pr_pattern_score (detect_patterns s event_type) \<le> 1"
proof -
  have score: "pr_pattern_score (detect_patterns s event_type)
      = calculate_pattern_score ((detect_patterns s event_type)\<lparr> pr_pattern_score := 0 \<rparr>)"
    by (simp add: detect_patterns_def Let_def)
  have flags: "any_flag (pr_behavioral_patterns (detect_patterns s event_type))
        = behavioral_flag_fired (lower (get_or (span_text s) [])) event_type"
    by (simp add: detect_patterns_def Let_def any_flag_detect)
  have formula: "calculate_pattern_score ((detect_patterns s event_type)\<lparr> pr_pattern_score := 0 \<rparr>)
     = min (0.2 * min (real (pr_temporal_indicators (detect_patterns s event_type)) / 5) 1
          + 0.4 * min (real (pr_causal_indicators (detect_patterns s event_type)) / 5) 1
          + 0.2 * min (real (pr_conditional_indicators (detect_patterns s event_type)) / 5) 1
          + 0.2 * min (real (pr_consequence_indicators (detect_patterns s event_type)) / 5) 1
          + (if any_flag (pr_behavioral_patterns (detect_patterns s event_type))
             then 0.2 else 0)) 1"
    by (simp add: calculate_pattern_score_def normalized_def Let_def)
  have bounds: "0 \<le> pr_pattern_score (detect_patterns s event_type)
      \<and> pr_pattern_score (detect_patterns s event_type) \<le> 1"
    unfolding score by (rule calculate_pattern_score_bounds)
  have counts: "pr_temporal_indicators (detect_patterns s event_type)
        = count_indicators (lower (get_or (span_text s) [])) temporal_lexicon
   \<and> pr_causal_indicators (detect_patterns s event_type)
        = count_indicators (lower (get_or (span_text s) [])) causal_lexicon
   \<and> pr_conditional_indicators (detect_patterns s event_type)
        = count_indicators (lower (get_or (span_text s) [])) conditional_lexicon
   \<and> pr_consequence_indicators (detect_patterns s event_type)
        = count_indicators (lower (get_or (span_text s) [])) consequence_lexicon"
    by (simp add: detect_patterns_def Let_def)
  have main: "pr_pattern_score (detect_patterns s event_type) =
     min (0.2 * min (real (pr_temporal_indicators (detect_patterns s event_type)) / 5) 1
          + 0.4 * min (real (pr_causal_indicators (detect_patterns s event_type)) / 5) 1
          + 0.2 * min (real (pr_conditional_indicators (detect_patterns s event_type)) / 5) 1
          + 0.2 * min (real (pr_consequence_indicators (detect_patterns s event_type)) / 5) 1
          + (if behavioral_flag_fired (lower (get_or (span_text s) [])) event_type
             then 0.2 else 0)) 1"
    using score formula by (simp only: flags)
  from main flags counts bounds show ?thesis by (intro conjI) blast+
qed

theorem pattern_score_weighted_sum_witness:
  "pr_pattern_score (detect_patterns
      (empty_span\<lparr> span_text := Some ''Upset BECAUSE late'' \<rparr>) None) = 0.28"
proof -
  have t: "lower (get_or (span_text
      (empty_span\<lparr> span_text := Some ''Upset BECAUSE late'' \<rparr>)) [])
        = ''upset because late''"
    by code_simp
  have f: "behavioral_flag_fired ''upset because late'' None"
    by code_simp
  have c1: "count_indicators ''upset because late'' temporal_lexicon = 0"
    by code_simp
  have c2: "count_indicators ''upset because late'' causal_lexicon = 1"
    by code_simp
  have c3: "count_indicators ''upset because late'' conditional_lexicon = 0"
    by code_simp
  have c4: "count_indicators ''upset because late'' consequence_lexicon = 0"
    by code_simp
  from pattern_score_weighted_sum
    [of "empty_span\<lparr> span_text := Some ''Upset BECAUSE late'' \<rparr>" None]
  show ?thesis
    by (simp only: t f c1 c2 c3 c4) simp
qed

lemma temporal_decay_pos: "0 \<le> d \<Longrightarrow> 0 < temporal_decay d"
  by (simp add: temporal_decay_def add_pos_nonneg)

lemma temporal_decay_le_1: "0 \<le> d \<Longrightarrow> temporal_decay d \<le> 1"
  by (simp add: temporal_decay_def)

lemma temporal_decay_strict: "0 \<le> d1 \<Longrightarrow> d1 < d2 \<Longrightarrow> temporal_decay d2 < temporal_decay d1"
  by (simp add: temporal_decay_def frac_less2)

lemma annotate_temporal_distance_nonneg:
  "\<exists>d. temporal_distance (annotate_temporal e s) = Some d \<and> 0 \<le> d
       \<and> temporal_score (annotate_temporal e s) = Some (temporal_decay d)"
  by (simp add: annotate_temporal_def Let_def)

text \<open>
  Claim C6. \<open>detect_temporal_patterns\<close> annotates every span on its own. With the
  start and end index read with default 0: a span whose end is before the event precedes
  it, at distance event minus end; otherwise a span whose start is after the event
  follows it, at distance start minus event (so does every span with start at most end
  whose start is after the event); otherwise the span overlaps, at distance 0. The
  distance is never negative, the temporal score is 1 at distance 0 and
  \<open>1 / (1 + distance / 10)\<close> otherwise, it lies in (0, 1], and as a function of the
  distance it is strictly decreasing.
\<close>

theorem temporal_annotation:
  "detect_temporal_patterns spans e = map (annotate_temporal e) spans
   \<and> (get_or (end_turn_index s) 0 < e \<longrightarrow>
        temporal_relation (annotate_temporal e s) = Some Precedes
        \<and> temporal_distance (annotate_temporal e s) = Some (e - get_or (end_turn_index s) 0))
   \<and> (\<not> get_or (end_turn_index s) 0 < e \<and> e < get_or (start_turn_index s) 0 \<longrightarrow>
        temporal_relation (annotate_temporal e s) = Some Follows
        \<and> temporal_distance (annotate_temporal e s) = Some (get_or (start_turn_index s) 0 - e))
   \<and> (get_or (start_turn_index s) 0 \<le> get_or (end_turn_index s) 0
        \<and> e < get_or (start_turn_index s) 0 \<longrightarrow>
        temporal_relation (annotate_temporal e s) = Some Follows)
   \<and> (\<not> get_or (end_turn_index s) 0 < e \<and> \<not> e < get_or (start_turn_index s) 0 \<longrightarrow>
        temporal_relation (annotate_temporal e s) = Some Overlaps
        \<and> temporal_distance (annotate_temporal e s) = Some 0)
   \<and> (\<exists>d. temporal_distance (annotate_temporal e s) = Some d \<and> 0 \<le> d
         \<and> temporal_score (annotate_temporal e s)
             = Some (if d = 0 then 1 else 1 / (1 + real_of_int d / 10)))
   \<and> (\<exists>v. temporal_score (annotate_temporal e s) = Some v \<and> 0 < v \<and> v \<le> 1)
   \<and> (0 \<le> d1 \<and> d1 < d2 \<longrightarrow> temporal_decay d2 < temporal_decay d1)"
proof (intro conjI impI)
  show "detect_temporal_patterns spans e = map (annotate_temporal e) spans"
    by (simp add: detect_temporal_patterns_def)
next
  assume "get_or (end_turn_index s) 0 < e"
  then show "temporal_relation (annotate_temporal e s) = Some Precedes"
    and "temporal_distance (annotate_temporal e s) = Some (e - get_or (end_turn_index s) 0)"
    by (simp_all add: annotate_temporal_def Let_def)
next
  assume "\<not> get_or (end_turn_index s) 0 < e \<and> e < get_or (start_turn_index s) 0"
  then show "temporal_relation (annotate_temporal e s) = Some Follows"
    and "temporal_distance (annotate_temporal e s) = Some (get_or (start_turn_index s) 0 - e)"
    by (simp_all add: annotate_temporal_def Let_def)
next
  assume "get_or (start_turn_index s) 0 \<le> get_or (end_turn_index s) 0
        \<and> e < get_or (start_turn_index s) 0"
  then show "temporal_relation (annotate_temporal e s) = Some Follows"
    by (simp add: annotate_temporal_def Let_def)
next
  assume "\<not> get_or (end_turn_index s) 0 < e \<and> \<not> e < get_or (start_turn_index s) 0"
  then show "temporal_relation (annotate_temporal e s) = Some Overlaps"
    and "temporal_distance (annotate_temporal e s) = Some 0"
    by (simp_all add: annotate_temporal_def Let_def)
next
  from annotate_temporal_distance_nonneg [of e s]
  show "\<exists>d. temporal_distance (annotate_temporal e s) = Some d \<and> 0 \<le> d
         \<and> temporal_score (annotate_temporal e s)
             = Some (if d = 0 then 1 else 1 / (1 + real_of_int d / 10))"
    by (simp add: temporal_decay_def)
next
  from annotate_temporal_distance_nonneg [of e s]
  obtain d where "0 \<le> d" "temporal_score (annotate_temporal e s) = Some (temporal_decay d)"
    by blast
  then show "\<exists>v. temporal_score (annotate_temporal e s) = Some v \<and> 0 < v \<and> v \<le> 1"
    by (simp add: temporal_decay_pos temporal_decay_le_1)
next
  assume "0 \<le> d1 \<and> d1 < d2"
  then show "temporal_decay d2 < temporal_decay d1"
    by (simp add: temporal_decay_strict)
qed

theorem temporal_annotation_witness:
  "temporal_relation (annotate_temporal 9
       (empty_span\<lparr> start_turn_index := Some 2, end_turn_index := Some 6 \<rparr>)) = Some Precedes
   \<and> temporal_distance (annotate_temporal 9
       (empty_span\<lparr> start_turn_index := Some 2, end_turn_index := Some 6 \<rparr>)) = Some 3
   \<and> temporal_relation (annotate_temporal 1
       (empty_span\<lparr> start_turn_index := Some 2, end_turn_index := Some 6 \<rparr>)) = Some Follows
   \<and> temporal_relation (annotate_temporal 4
       (empty_span\<lparr> start_turn_index := Some 2, end_turn_index := Some 6 \<rparr>)) = Some Overlaps
   \<and> temporal_decay 5 < temporal_decay 0"
  using temporal_annotation [of "[]" 9 "empty_span\<lparr> start_turn_index := Some 2, end_turn_index := Some 6 \<rparr>" 0 5]
    temporal_annotation [of "[]" 1 "empty_span\<lparr> start_turn_index := Some 2, end_turn_index := Some 6 \<rparr>" 0 5]
    temporal_annotation [of "[]" 4 "empty_span\<lparr> start_turn_index := Some 2, end_turn_index := Some 6 \<rparr>" 0 5]
  by (simp add: get_or_def empty_span_def)


section \<open>Sequential annotation\<close>

lemma is_sequential_iff:
  "is_sequential a b = (\<bar>get_or (start_turn_index b) 0 - get_or (end_turn_index a) 0\<bar> \<le> 2)"
  by (simp add: is_sequential_def Let_def)

lemma create_span_indices:
  "start_turn_index (create_span ts tid st w i) = Some (st + int i)
   \<and> end_turn_index (create_span ts tid st w i) = Some (st + int i + w - 1)"
  by (simp add: create_span_def Let_def empty_span_def)

lemma windows_sequential_iff:
  "is_sequential (create_span ts tid st w i) (create_span ts tid st w (Suc i)) = (0 \<le> w \<and> w \<le> 4)"
  by (auto simp add: is_sequential_iff create_span_indices get_or_def)

text \<open>
  Claim C4 says that consecutive stride-1 overlapping windows are sequential. The two
  windows of the default size 5 over six turns start at 0 and 1 and the first ends at 4;
  \<open>_is_sequential\<close> takes the absolute value of 1 - 4, which exceeds 2, and
  \<open>detect_sequential_patterns\<close> counts no sequential neighbour for either.
\<close>

theorem sequential_windows_counterexample:
  "\<not> is_sequential
       (create_span (replicate 6 \<lparr> turn_id = None, speaker = None, turn_text = None \<rparr>) ''t'' 0 5 0)
       (create_span (replicate 6 \<lparr> turn_id = None, speaker = None, turn_text = None \<rparr>) ''t'' 0 5 1)
   \<and> map sequential_indicators
        (detect_sequential_patterns
          [create_span (replicate 6 \<lparr> turn_id = None, speaker = None, turn_text = None \<rparr>) ''t'' 0 5 0,
           create_span (replicate 6 \<lparr> turn_id = None, speaker = None, turn_text = None \<rparr>) ''t'' 0 5 1])
       = [Some 0, Some 0]"
proof -
  let ?a = "create_span (replicate 6 \<lparr> turn_id = None, speaker = None, turn_text = None \<rparr>) ''t'' 0 5 0"
  let ?b = "create_span (replicate 6 \<lparr> turn_id = None, speaker = None, turn_text = None \<rparr>) ''t'' 0 5 1"
  have n: "\<not> is_sequential ?a ?b"
    using windows_sequential_iff [of _ _ 0 5 0] by simp
  have up: "[0..<2] = [0, Suc 0]"
    by (simp add: upt_rec)
  have "detect_sequential_patterns [?a, ?b]
          = [annotate_sequential [?a, ?b] 0, annotate_sequential [?a, ?b] (Suc 0)]"
    by (simp add: detect_sequential_patterns_def Let_def up create_span_indices get_or_def)
  then have "map sequential_indicators (detect_sequential_patterns [?a, ?b]) = [Some 0, Some 0]"
    using n by (simp add: annotate_sequential_def Let_def)
  with n show ?thesis by simp
qed

text \<open>
  Claim C4, amended. A list of fewer than two spans is returned as it is, without the
  annotation. A list of at least two spans is sorted by start index (default 0) and the
  span at position \<open>i\<close> of the sorted list gets as \<open>sequential_indicators\<close> the number of
  its sort-order neighbours at an absolute distance of at most 2 turns between the end of
  the earlier and the start of the later span, and as \<open>sequential_score\<close> the minimum of
  half that number and 1. Two consecutive stride-1 windows of size \<open>w\<close> are sequential
  exactly when \<open>w\<close> is between 0 and 4.
\<close>

theorem sequential_annotation:
  "(length spans < 2 \<longrightarrow> detect_sequential_patterns spans = spans)
   \<and> (2 \<le> length spans \<longrightarrow>
        length (detect_sequential_patterns spans) = length spans
        \<and> (\<forall>i < length spans.
             detect_sequential_patterns spans ! i =
               (sort_key (\<lambda>x. get_or (start_turn_index x) 0) spans ! i)
                 \<lparr> sequential_indicators := Some
                      ((if 0 < i \<and>
                           \<bar>get_or (start_turn_index
                                (sort_key (\<lambda>x. get_or (start_turn_index x) 0) spans ! i)) 0
                            - get_or (end_turn_index
                                (sort_key (\<lambda>x. get_or (start_turn_index x) 0) spans ! (i - 1))) 0\<bar> \<le> 2
                        then 1 else 0)
                       + (if i + 1 < length spans \<and>
                           \<bar>get_or (start_turn_index
                                (sort_key (\<lambda>x. get_or (start_turn_index x) 0) spans ! (i + 1))) 0
                            - get_or (end_turn_index
                                (sort_key (\<lambda>x. get_or (start_turn_index x) 0) spans ! i)) 0\<bar> \<le> 2
                        then 1 else 0)),
                   sequential_score := Some (min (real
                      ((if 0 < i \<and>
                           \<bar>get_or (start_turn_index
                                (sort_key (\<lambda>x. get_or (start_turn_index x) 0) spans ! i)) 0
                            - get_or (end_turn_index
                                (sort_key (\<lambda>x. get_or (start_turn_index x) 0) spans ! (i - 1))) 0\<bar> \<le> 2
                        then 1 else 0)
                       + (if i + 1 < length spans \<and>
                           \<bar>get_or (start_turn_index
                                (sort_key (\<lambda>x. get_or (start_turn_index x) 0) spans ! (i + 1))) 0
                            - get_or (end_turn_index
                                (sort_key (\<lambda>x. get_or (start_turn_index x) 0) spans ! i)) 0\<bar> \<le> 2
                        then 1 else 0)) / 2) 1) \<rparr>))
   \<and> is_sequential (create_span ts tid st w j) (create_span ts tid st w (Suc j))
       = (0 \<le> w \<and> w \<le> 4)"
proof (intro conjI impI allI)
  assume "length spans < 2"
  then show "detect_sequential_patterns spans = spans"
    by (simp add: detect_sequential_patterns_def)
next
  assume "2 \<le> length spans"
  then show "length (detect_sequential_patterns spans) = length spans"
    by (simp add: detect_sequential_patterns_def Let_def)
next
  fix i
  assume len: "2 \<le> length spans" and i: "i < length spans"
  let ?ss = "sort_key (\<lambda>x. get_or (start_turn_index x) 0) spans"
  have d: "detect_sequential_patterns spans ! i = annotate_sequential ?ss i"
    using len i by (simp add: detect_sequential_patterns_def Let_def)
  have nx: "(int i < int (length ?ss) - 1) = (i + 1 < length spans)"
    by auto
  show "detect_sequential_patterns spans ! i =
               (?ss ! i)
                 \<lparr> sequential_indicators := Some
                      ((if 0 < i \<and>
                           \<bar>get_or (start_turn_index (?ss ! i)) 0
                            - get_or (end_turn_index (?ss ! (i - 1))) 0\<bar> \<le> 2
                        then 1 else 0)
                       + (if i + 1 < length spans \<and>
                           \<bar>get_or (start_turn_index (?ss ! (i + 1))) 0
                            - get_or (end_turn_index (?ss ! i)) 0\<bar> \<le> 2
                        then 1 else 0)),
                   sequential_score := Some (min (real
                      ((if 0 < i \<and>
                           \<bar>get_or (start_turn_index (?ss ! i)) 0
                            - get_or (end_turn_index (?ss ! (i - 1))) 0\<bar> \<le> 2
                        then 1 else 0)
                       + (if i + 1 < length spans \<and>
                           \<bar>get_or (start_turn_index (?ss ! (i + 1))) 0
                            - get_or (end_turn_index (?ss ! i)) 0\<bar> \<le> 2
                        then 1 else 0)) / 2) 1) \<rparr>"
    unfolding d annotate_sequential_def Let_def nx is_sequential_iff
    by simp
next
  show "is_sequential (create_span ts tid st w j) (create_span ts tid st w (Suc j))
       = (0 \<le> w \<and> w \<le> 4)"
    by (rule windows_sequential_iff)
qed

theorem sequential_annotation_witness:
  "2 \<le> length [empty_span\<lparr> start_turn_index := Some 5, end_turn_index := Some 6 \<rparr>,
                 empty_span\<lparr> start_turn_index := Some 0, end_turn_index := Some 4 \<rparr>]
   \<and> map sequential_score (detect_sequential_patterns
         [empty_span\<lparr> start_turn_index := Some 5, end_turn_index := Some 6 \<rparr>,
          empty_span\<lparr> start_turn_index := Some 0, end_turn_index := Some 4 \<rparr>])
       = [Some 0.5, Some 0.5]
   \<and> map start_turn_index (detect_sequential_patterns
         [empty_span\<lparr> start_turn_index := Some 5, end_turn_index := Some 6 \<rparr>,
          empty_span\<lparr> start_turn_index := Some 0, end_turn_index := Some 4 \<rparr>])
       = [Some 0, Some 5]
   \<and> detect_sequential_patterns [empty_span\<lparr> start_turn_index := Some 5 \<rparr>]
       = [empty_span\<lparr> start_turn_index := Some 5 \<rparr>]"
proof -
  let ?a = "empty_span\<lparr> start_turn_index := Some 5, end_turn_index := Some 6 \<rparr>"
  let ?b = "empty_span\<lparr> start_turn_index := Some 0, end_turn_index := Some 4 \<rparr>"
  have s: "sort_key (\<lambda>x. get_or (start_turn_index x) 0) [?a, ?b] = [?b, ?a]"
    by (simp add: get_or_def empty_span_def)
  have l: "2 \<le> length [?a, ?b]" by simp
  note t = sequential_annotation [of "[?a, ?b]" "[]" "[]" 0 1 0]
  from t l have n: "length (detect_sequential_patterns [?a, ?b]) = 2"
    by simp
  from t l have "\<forall>i<2. sequential_score (detect_sequential_patterns [?a, ?b] ! i) = Some 0.5
      \<and> start_turn_index (detect_sequential_patterns [?a, ?b] ! i) = start_turn_index ([?b, ?a] ! i)"
    unfolding s by (simp add: get_or_def empty_span_def less_Suc_eq numeral_2_eq_2)
  then have e: "sequential_score (detect_sequential_patterns [?a, ?b] ! 0) = Some 0.5"
    "sequential_score (detect_sequential_patterns [?a, ?b] ! 1) = Some 0.5"
    "start_turn_index (detect_sequential_patterns [?a, ?b] ! 0) = Some 0"
    "start_turn_index (detect_sequential_patterns [?a, ?b] ! 1) = Some 5"
    by (simp_all add: empty_span_def)
  from n obtain x y where xy: "detect_sequential_patterns [?a, ?b] = [x, y]"
    by (metis (no_types, lifting) length_0_conv length_Suc_conv numeral_2_eq_2)
  from e have "map sequential_score (detect_sequential_patterns [?a, ?b]) = [Some 0.5, Some 0.5]"
    and "map start_turn_index (detect_sequential_patterns [?a, ?b]) = [Some 0, Some 5]"
    unfolding xy by simp_all
  moreover from sequential_annotation [of "[empty_span\<lparr> start_turn_index := Some 5 \<rparr>]" "[]" "[]" 0 1 0]
  have "detect_sequential_patterns [empty_span\<lparr> start_turn_index := Some 5 \<rparr>]
       = [empty_span\<lparr> start_turn_index := Some 5 \<rparr>]" by simp
  ultimately show ?thesis using l by simp
qed


section \<open>Properties of the span extractor\<close>

lemma py_slice_window:
  assumes "0 \<le> w" and "int i + w \<le> int (length xs)"
  shows "py_slice xs (int i) (int i + w) = take (nat w) (drop i xs)"
proof -
  from assms have lo: "slice_bound (length xs) (int i) = i"
    by (simp add: slice_bound_def)
  from assms have hi: "slice_bound (length xs) (int i + w) = i + nat w"
    by (simp add: slice_bound_def nat_add_distrib)
  show ?thesis by (simp add: py_slice_def lo hi)
qed

lemma window_turn_ids:
  assumes "0 \<le> w" and "int i + w \<le> int (length ts)"
  shows "map (\<lambda>jt. get_or (turn_id (snd jt)) (IdInt (st + int i + int (fst jt))))
             (enumerate 0 (take (nat w) (drop i ts)))
         = map (\<lambda>j. get_or (turn_id (ts ! (i + j))) (IdInt (st + int i + int j))) [0..<nat w]"
proof (rule nth_equalityI)
  from assms have len: "length (take (nat w) (drop i ts)) = nat w"
    by simp
  then show "length (map (\<lambda>jt. get_or (turn_id (snd jt)) (IdInt (st + int i + int (fst jt))))
             (enumerate 0 (take (nat w) (drop i ts))))
      = length (map (\<lambda>j. get_or (turn_id (ts ! (i + j))) (IdInt (st + int i + int j))) [0..<nat w])"
    by simp
  fix k
  assume "k < length (map (\<lambda>jt. get_or (turn_id (snd jt)) (IdInt (st + int i + int (fst jt))))
             (enumerate 0 (take (nat w) (drop i ts))))"
  with len have k: "k < nat w" by simp
  with assms have "i + k < length ts" by linarith
  with k len show "map (\<lambda>jt. get_or (turn_id (snd jt)) (IdInt (st + int i + int (fst jt))))
             (enumerate 0 (take (nat w) (drop i ts))) ! k
      = map (\<lambda>j. get_or (turn_id (ts ! (i + j))) (IdInt (st + int i + int j))) [0..<nat w] ! k"
    by (simp add: nth_enumerate_eq)
qed

lemma create_span_window:
  assumes "0 \<le> w" and "int i + w \<le> int (length ts)"
  shows "turn_ids (create_span ts tid st w i)
           = Some (map (\<lambda>j. get_or (turn_id (ts ! (i + j))) (IdInt (st + int i + int j))) [0..<nat w])"
    and "speakers (create_span ts tid st w i)
           = Some (map (\<lambda>t. get_or (speaker t) ''unknown'') (take (nat w) (drop i ts)))"
    and "span_text (create_span ts tid st w i)
           = Some (join '' '' (map (\<lambda>t. get_or (turn_text t) []) (take (nat w) (drop i ts))))"
  using assms
  by (simp_all add: create_span_def Let_def empty_span_def py_slice_window window_turn_ids)

lemma create_span_fields:
  "start_turn_index (create_span ts tid st w i) = Some (st + int i)"
  "end_turn_index (create_span ts tid st w i) = Some (st + int i + w - 1)"
  "map_option window_size (metadata (create_span ts tid st w i)) = Some w"
  by (simp_all add: create_span_def Let_def empty_span_def)

text \<open>
  Claim C2. For a window size \<open>w\<close> of at least 1 and \<open>N\<close> turns: when \<open>w\<close> is at most
  \<open>N\<close>, \<open>_create_spans_from_turns\<close> returns \<open>N - w + 1\<close> spans; the span at position
  \<open>i\<close> starts at \<open>start_index + i\<close> (so the spans are in the order of their start),
  ends \<open>w - 1\<close> later, records the window size \<open>w\<close>, and its turn ids, speakers and text
  are those of the turns \<open>i\<close> to \<open>i + w - 1\<close> (a turn without an id counts with its index).
  When \<open>w\<close> exceeds \<open>N\<close>, and for the empty turn list, the result is the empty list.
\<close>

theorem window_spans:
  assumes "1 \<le> w"
  shows "(w \<le> int (length ts) \<longrightarrow>
           int (length (create_spans_from_turns ts tid st w)) = int (length ts) - w + 1
           \<and> (\<forall>i < length (create_spans_from_turns ts tid st w).
                 start_turn_index (create_spans_from_turns ts tid st w ! i) = Some (st + int i)
                 \<and> end_turn_index (create_spans_from_turns ts tid st w ! i)
                      = Some (st + int i + w - 1)
                 \<and> (st + int i + w - 1) - (st + int i) + 1 = w
                 \<and> map_option window_size (metadata (create_spans_from_turns ts tid st w ! i))
                      = Some w
                 \<and> turn_ids (create_spans_from_turns ts tid st w ! i)
                      = Some (map (\<lambda>j. get_or (turn_id (ts ! (i + j)))
                                           (IdInt (st + int i + int j))) [0..<nat w])
                 \<and> speakers (create_spans_from_turns ts tid st w ! i)
                      = Some (map (\<lambda>t. get_or (speaker t) ''unknown'')
                                  (take (nat w) (drop i ts)))
                 \<and> span_text (create_spans_from_turns ts tid st w ! i)
                      = Some (join '' '' (map (\<lambda>t. get_or (turn_text t) [])
                                              (take (nat w) (drop i ts))))))
       \<and> (int (length ts) < w \<longrightarrow> create_spans_from_turns ts tid st w = [])
       \<and> create_spans_from_turns [] tid st w = []"
proof (intro conjI impI allI)
  assume "w \<le> int (length ts)"
  then show "int (length (create_spans_from_turns ts tid st w)) = int (length ts) - w + 1"
    by (simp add: create_spans_from_turns_def)
next
  fix i
  assume le: "w \<le> int (length ts)" and "i < length (create_spans_from_turns ts tid st w)"
  then have i: "i < nat (int (length ts) - w + 1)"
    by (simp add: create_spans_from_turns_def)
  then have nth: "create_spans_from_turns ts tid st w ! i = create_span ts tid st w i"
    by (simp add: create_spans_from_turns_def)
  from i have b: "int i + w \<le> int (length ts)" by linarith
  from assms have w0: "0 \<le> w" by simp
  show "start_turn_index (create_spans_from_turns ts tid st w ! i) = Some (st + int i)"
    and "end_turn_index (create_spans_from_turns ts tid st w ! i) = Some (st + int i + w - 1)"
    and "map_option window_size (metadata (create_spans_from_turns ts tid st w ! i)) = Some w"
    by (simp_all only: nth create_span_fields)
  show "(st + int i + w - 1) - (st + int i) + 1 = w" by simp
  show "turn_ids (create_spans_from_turns ts tid st w ! i)
          = Some (map (\<lambda>j. get_or (turn_id (ts ! (i + j))) (IdInt (st + int i + int j))) [0..<nat w])"
    and "speakers (create_spans_from_turns ts tid st w ! i)
          = Some (map (\<lambda>t. get_or (speaker t) ''unknown'') (take (nat w) (drop i ts)))"
    and "span_text (create_spans_from_turns ts tid st w ! i)
          = Some (join '' '' (map (\<lambda>t. get_or (turn_text t) []) (take (nat w) (drop i ts))))"
    by (simp_all only: nth create_span_window [OF w0 b])
next
  assume "int (length ts) < w"
  then show "create_spans_from_turns ts tid st w = []"
    by (simp add: create_spans_from_turns_def)
next
  from assms show "create_spans_from_turns [] tid st w = []"
    by (simp add: create_spans_from_turns_def)
qed

theorem window_spans_witness:
  "(1::int) \<le> 2
   \<and> length (create_spans_from_turns
        [\<lparr> turn_id = Some (IdStr ''a''), speaker = None, turn_text = Some ''hi'' \<rparr>,
         \<lparr> turn_id = Some (IdStr ''b''), speaker = None, turn_text = Some ''yes'' \<rparr>,
         \<lparr> turn_id = None, speaker = None, turn_text = Some ''no'' \<rparr>] ''t'' 0 2) = 2
   \<and> turn_ids (create_spans_from_turns
        [\<lparr> turn_id = Some (IdStr ''a''), speaker = None, turn_text = Some ''hi'' \<rparr>,
         \<lparr> turn_id = Some (IdStr ''b''), speaker = None, turn_text = Some ''yes'' \<rparr>,
         \<lparr> turn_id = None, speaker = None, turn_text = Some ''no'' \<rparr>] ''t'' 0 2 ! 1)
       = Some [IdStr ''b'', IdInt 2]
   \<and> create_spans_from_turns
        [\<lparr> turn_id = Some (IdStr ''a''), speaker = None, turn_text = Some ''hi'' \<rparr>] ''t'' 0 2 = []"
proof -
  let ?ts = "[\<lparr> turn_id = Some (IdStr ''a''), speaker = None, turn_text = Some ''hi'' \<rparr>,
         \<lparr> turn_id = Some (IdStr ''b''), speaker = None, turn_text = Some ''yes'' \<rparr>,
         \<lparr> turn_id = None, speaker = None, turn_text = Some ''no'' \<rparr>]"
  have h: "(1::int) \<le> 2" by simp
  have le: "2 \<le> int (length ?ts)" by simp
  note c = window_spans [OF h, of ?ts "''t''" 0, THEN conjunct1, THEN mp, OF le]
  from c [THEN conjunct1] have len: "length (create_spans_from_turns ?ts ''t'' 0 2) = 2"
    by simp
  then have one: "1 < length (create_spans_from_turns ?ts ''t'' 0 2)" by simp
  have up: "[0..<2] = [0, Suc 0]" by (simp add: upt_rec)
  note d = c [THEN conjunct2, rule_format, OF one]
  from d [THEN conjunct2, THEN conjunct2, THEN conjunct2, THEN conjunct2, THEN conjunct1]
  have ids: "turn_ids (create_spans_from_turns ?ts ''t'' 0 2 ! 1)
       = Some [IdStr ''b'', IdInt 2]"
    by (simp add: up get_or_def)
  from window_spans [OF h, of "[\<lparr> turn_id = Some (IdStr ''a''), speaker = None, turn_text = Some ''hi'' \<rparr>]" "''t''" 0]
  have e: "create_spans_from_turns
        [\<lparr> turn_id = Some (IdStr ''a''), speaker = None, turn_text = Some ''hi'' \<rparr>] ''t'' 0 2 = []"
    by simp
  from len ids e show ?thesis by simp
qed


section \<open>Properties of the context manager\<close>

lemma starts_with_iff: "starts_with p s = (\<exists>post. s = p @ post)"
  by (induction p s rule: starts_with.induct) auto

lemma str_contains_iff: "str_contains p s = (\<exists>pre post. s = pre @ p @ post)"
proof (induction s)
  case Nil
  then show ?case by simp
next
  case (Cons c cs)
  show ?case
  proof
    assume "str_contains p (c # cs)"
    then consider "starts_with p (c # cs)" | "str_contains p cs" by auto
    then show "\<exists>pre post. c # cs = pre @ p @ post"
    proof cases
      case 1
      then obtain post where "c # cs = p @ post" by (auto simp: starts_with_iff)
      then have "c # cs = [] @ p @ post" by simp
      then show ?thesis by blast
    next
      case 2
      with Cons obtain pre post where "cs = pre @ p @ post" by blast
      then have "c # cs = (c # pre) @ p @ post" by simp
      then show ?thesis by blast
    qed
  next
    assume "\<exists>pre post. c # cs = pre @ p @ post"
    then obtain pre post where e: "c # cs = pre @ p @ post" by blast
    show "str_contains p (c # cs)"
    proof (cases pre)
      case Nil
      with e have "starts_with p (c # cs)" by (auto simp: starts_with_iff)
      then show ?thesis by simp
    next
      case (Cons a pre')
      with e have "cs = pre' @ p @ post" by simp
      with Cons.IH have "str_contains p cs" by blast
      then show ?thesis by simp
    qed
  qed
qed

lemma what_about_it: "str_contains ''what about'' (lower ''what about it?'')"
  by code_simp


lemma split_ws_substring:
  "w \<in> set (split_ws acc s) \<Longrightarrow> \<exists>pre post. acc @ s = pre @ w @ post"
proof (induction s arbitrary: acc)
  case Nil
  then have "w = acc" by (simp split: if_splits)
  then have "acc @ [] = [] @ w @ []" by simp
  then show ?case by blast
next
  case (Cons c cs)
  show ?case
  proof (cases "is_space c")
    case False
    with Cons.prems have "w \<in> set (split_ws (acc @ [c]) cs)" by simp
    from Cons.IH [OF this] show ?thesis by simp
  next
    case True
    with Cons.prems consider "w = acc" | "w \<in> set (split_ws [] cs)"
      by (auto split: if_splits)
    then show ?thesis
    proof cases
      case 1
      then have "acc @ c # cs = [] @ w @ (c # cs)" by simp
      then show ?thesis by blast
    next
      case 2
      from Cons.IH [OF this] obtain pre post where "cs = pre @ w @ post" by auto
      then have "acc @ c # cs = (acc @ c # pre) @ w @ post" by simp
      then show ?thesis by blast
    qed
  qed
qed

lemma word_is_substring: "w \<in> set (py_split s) \<Longrightarrow> str_contains w s"
  using split_ws_substring [of w "[]" s]
  by (simp add: py_split_def str_contains_iff)

lemma is_followup_code:
  assumes "turn_log self cid \<noteq> []"
  shows "is_followup self query cid =
           ((\<exists>indicator \<in> set followup_indicators. str_contains indicator (lower query))
            \<or> (\<exists>word \<in> set (py_split (lower query)). word \<in> set pronouns)
            \<or> length (py_split query) < 5)"
proof -
  from assms obtain conv where "conversations self cid = Some conv" "turns conv \<noteq> []"
    by (auto simp: turn_log_def split: option.splits)
  then show ?thesis
    by (simp add: is_followup_def get_context_def Let_def list_ex_iff)
qed

lemma is_followup_no_history:
  assumes "turn_log self cid = []"
  shows "\<not> is_followup self query cid"
  using assms
  by (simp add: turn_log_def is_followup_def get_context_def split: option.splits)

text \<open>
  Claim C3, amended. \<open>is_followup\<close> is false when the conversation has no recorded turn,
  whatever the query. When it has one, \<open>is_followup\<close> is true exactly when the lower-cased
  query contains as a substring one of the twelve cue phrases or one of
  \<open>it\<close>, \<open>that\<close>, \<open>this\<close>, \<open>these\<close>, \<open>those\<close>, \<open>they\<close>, or has \<open>them\<close> among its
  whitespace-separated words, or the query has fewer than five whitespace-separated
  words; so it is true for the query \<open>what about it?\<close>.
\<close>

theorem is_followup_heuristic:
  "(turn_log self cid = [] \<longrightarrow> \<not> is_followup self query cid)
   \<and> (turn_log self cid \<noteq> [] \<longrightarrow>
        is_followup self query cid =
          ((\<exists>cue \<in> set [''also'', ''additionally'', ''furthermore'', ''moreover'',
                          ''what about'', ''how about'', ''tell me more'', ''can you'',
                          ''what else'', ''another'', ''other'', ''different''].
               \<exists>pre post. lower query = pre @ cue @ post)
           \<or> (\<exists>pronoun \<in> set [''it'', ''that'', ''this'', ''these'', ''those'', ''they''].
               \<exists>pre post. lower query = pre @ pronoun @ post)
           \<or> ''them'' \<in> set (py_split (lower query))
           \<or> length (py_split query) < 5))
   \<and> (turn_log self cid \<noteq> [] \<longrightarrow> is_followup self ''what about it?'' cid)"
proof (intro conjI impI)
  assume "turn_log self cid = []"
  then show "\<not> is_followup self query cid" by (rule is_followup_no_history)
next
  assume ne: "turn_log self cid \<noteq> []"
  let ?lq = "lower query"
  let ?cues = "[''also'', ''additionally'', ''furthermore'', ''moreover'',
                ''what about'', ''how about'', ''tell me more'', ''can you'',
                ''what else'', ''another'', ''other'', ''different'']"
  let ?subs = "[''it'', ''that'', ''this'', ''these'', ''those'', ''they'']"
  have ind: "(\<exists>i \<in> set followup_indicators. str_contains i ?lq)
               = ((\<exists>c \<in> set ?cues. str_contains c ?lq) \<or> (\<exists>p \<in> set ?subs. str_contains p ?lq))"
    unfolding followup_indicators_def by (simp add: disj_ac)
  have pro: "(\<exists>w \<in> set (py_split ?lq). w \<in> set pronouns)
               = ((\<exists>p \<in> set ?subs. p \<in> set (py_split ?lq)) \<or> ''them'' \<in> set (py_split ?lq))"
    unfolding pronouns_def by auto
  have sub: "(\<exists>p \<in> set ?subs. p \<in> set (py_split ?lq)) \<Longrightarrow> (\<exists>p \<in> set ?subs. str_contains p ?lq)"
    using word_is_substring [of _ ?lq] by blast
  have "is_followup self query cid =
          ((\<exists>c \<in> set ?cues. str_contains c ?lq)
           \<or> (\<exists>p \<in> set ?subs. str_contains p ?lq)
           \<or> ''them'' \<in> set (py_split ?lq)
           \<or> length (py_split query) < 5)"
    unfolding is_followup_code [OF ne] ind pro using sub by blast
  then show "is_followup self query cid =
          ((\<exists>cue \<in> set ?cues. \<exists>pre post. lower query = pre @ cue @ post)
           \<or> (\<exists>pronoun \<in> set ?subs. \<exists>pre post. lower query = pre @ pronoun @ post)
           \<or> ''them'' \<in> set (py_split (lower query))
           \<or> length (py_split query) < 5)"
    by (simp only: str_contains_iff)
next
  assume ne: "turn_log self cid \<noteq> []"
  have "str_contains ''what about'' (lower ''what about it?'')"
    by (rule what_about_it)
  then have "\<exists>i \<in> set followup_indicators. str_contains i (lower ''what about it?'')"
    by (simp add: followup_indicators_def)
  then show "is_followup self ''what about it?'' cid"
    by (simp only: is_followup_code [OF ne] simp_thms)
qed

text \<open>
  Claim C3 says that, with history, the answer is true exactly for a cue phrase, a
  pronoun as a whole word, or fewer than five words. The query
  \<open>The committee submitted a final report yesterday\<close> has seven words, no cue phrase and
  no pronoun among its words, yet \<open>is_followup\<close> answers true: the code's indicator list
  also holds \<open>it\<close>, which it looks for as a substring and finds in \<open>committee\<close>.
\<close>

theorem is_followup_substring_counterexample:
  "is_followup
      \<lparr> conversations = [''c'' \<mapsto>
           \<lparr> conversation_id = ''c'',
             turns = [\<lparr> ct_turn_id = ''u'', ct_query = ''Why refunds?'',
                        ct_response = ''Because.'', ct_timestamp = 0, ct_metadata = [] \<rparr>],
             created_at = 0, updated_at = 0, cc_metadata = [] \<rparr>],
         max_context_length = 4000 \<rparr>
      ''The committee submitted a final report yesterday'' ''c''
   \<and> \<not> is_followup_as_specified
      \<lparr> conversations = [''c'' \<mapsto>
           \<lparr> conversation_id = ''c'',
             turns = [\<lparr> ct_turn_id = ''u'', ct_query = ''Why refunds?'',
                        ct_response = ''Because.'', ct_timestamp = 0, ct_metadata = [] \<rparr>],
             created_at = 0, updated_at = 0, cc_metadata = [] \<rparr>],
         max_context_length = 4000 \<rparr>
      ''The committee submitted a final report yesterday'' ''c''"
proof -
  let ?q = "''The committee submitted a final report yesterday''"
  have a: "list_ex (\<lambda>indicator. str_contains indicator (lower ?q)) followup_indicators"
    by code_simp
  have b: "\<not> list_ex (\<lambda>cue. str_contains cue (lower ?q)) cue_phrases"
    by code_simp
  have c: "\<not> list_ex (\<lambda>word. List.member pronouns word) (py_split (lower ?q))"
    by code_simp
  have d: "\<not> length (py_split ?q) < 5"
    by code_simp
  from a b c d show ?thesis
    by (simp add: is_followup_def is_followup_as_specified_def get_context_def turn_log_def)
qed

theorem is_followup_heuristic_witness:
  "\<not> is_followup \<lparr> conversations = Map.empty, max_context_length = 4000 \<rparr>
          ''what about it?'' ''c''
   \<and> is_followup
      \<lparr> conversations = [''c'' \<mapsto>
           \<lparr> conversation_id = ''c'',
             turns = [\<lparr> ct_turn_id = ''u'', ct_query = ''Why refunds?'',
                        ct_response = ''Because.'', ct_timestamp = 0, ct_metadata = [] \<rparr>],
             created_at = 0, updated_at = 0, cc_metadata = [] \<rparr>],
         max_context_length = 4000 \<rparr> ''what about it?'' ''c''
   \<and> \<not> is_followup
      \<lparr> conversations = [''c'' \<mapsto>
           \<lparr> conversation_id = ''c'',
             turns = [\<lparr> ct_turn_id = ''u'', ct_query = ''Why refunds?'',
                        ct_response = ''Because.'', ct_timestamp = 0, ct_metadata = [] \<rparr>],
             created_at = 0, updated_at = 0, cc_metadata = [] \<rparr>],
         max_context_length = 4000 \<rparr>
      ''Please summarize customer refund trends today'' ''c''
   \<and> is_followup
      \<lparr> conversations = [''c'' \<mapsto>
           \<lparr> conversation_id = ''c'',
             turns = [\<lparr> ct_turn_id = ''u'', ct_query = ''Why refunds?'',
                        ct_response = ''Because.'', ct_timestamp = 0, ct_metadata = [] \<rparr>],
             created_at = 0, updated_at = 0, cc_metadata = [] \<rparr>],
         max_context_length = 4000 \<rparr>
      ''Please send them the refund form today'' ''c''"
proof -
  let ?e = "\<lparr> conversations = Map.empty, max_context_length = 4000 \<rparr>"
  let ?m = "\<lparr> conversations = [''c'' \<mapsto>
           \<lparr> conversation_id = ''c'',
             turns = [\<lparr> ct_turn_id = ''u'', ct_query = ''Why refunds?'',
                        ct_response = ''Because.'', ct_timestamp = 0, ct_metadata = [] \<rparr>],
             created_at = 0, updated_at = 0, cc_metadata = [] \<rparr>],
         max_context_length = 4000 \<rparr>"
  let ?cues = "[''also'', ''additionally'', ''furthermore'', ''moreover'',
                ''what about'', ''how about'', ''tell me more'', ''can you'',
                ''what else'', ''another'', ''other'', ''different'']"
  let ?subs = "[''it'', ''that'', ''this'', ''these'', ''those'', ''they'']"
  let ?q2 = "''Please summarize customer refund trends today''"
  let ?q3 = "''Please send them the refund form today''"
  have a: "turn_log ?e ''c'' = []" by (simp add: turn_log_def)
  have b: "turn_log ?m ''c'' \<noteq> []" by (simp add: turn_log_def)
  have n1: "\<not> list_ex (\<lambda>cue. str_contains cue (lower ?q2)) ?cues" by code_simp
  have n2: "\<not> list_ex (\<lambda>p. str_contains p (lower ?q2)) ?subs" by code_simp
  have n3: "''them'' \<notin> set (py_split (lower ?q2))" by code_simp
  have n4: "\<not> length (py_split ?q2) < 5" by code_simp
  have y: "''them'' \<in> set (py_split (lower ?q3))" by code_simp
  note t1 = is_followup_heuristic [where self = ?e and cid = "''c''" and query = "''what about it?''",
      THEN conjunct1, THEN mp, OF a]
  note t2 = is_followup_heuristic [where self = ?m and cid = "''c''",
      THEN conjunct2, THEN conjunct2, THEN mp, OF b]
  note t3 = is_followup_heuristic [where self = ?m and cid = "''c''" and query = ?q2,
      THEN conjunct2, THEN conjunct1, THEN mp, OF b]
  note t4 = is_followup_heuristic [where self = ?m and cid = "''c''" and query = ?q3,
      THEN conjunct2, THEN conjunct1, THEN mp, OF b]
  from n1 n2 have "\<not> ((\<exists>cue \<in> set ?cues. \<exists>pre post. lower ?q2 = pre @ cue @ post)
           \<or> (\<exists>pronoun \<in> set ?subs. \<exists>pre post. lower ?q2 = pre @ pronoun @ post))"
    by (simp only: list_ex_iff str_contains_iff) blast
  with n3 n4 t3 have f: "\<not> is_followup ?m ?q2 ''c''" by blast
  from y t4 have g: "is_followup ?m ?q3 ''c''" by blast
  from t1 t2 f g show ?thesis by blast
qed

section \<open>Properties of the follow-up processor\<close>



lemma turn_log_get_or_create:
  "turn_log (snd (get_or_create_conversation self c uid now)) k = turn_log self k"
  by (simp add: get_or_create_conversation_def turn_log_def Let_def split: option.splits)

lemma turn_log_get_context_summary:
  "turn_log (snd (get_context_summary self cid uid now)) k = turn_log self k"
  by (simp add: get_context_summary_def Let_def turn_log_get_or_create)

lemma fst_get_or_create:
  "turns (fst (get_or_create_conversation self (Some cid) uid now)) = turn_log self cid"
  by (simp add: get_or_create_conversation_def turn_log_def Let_def split: option.splits)

lemma turn_log_add_turn:
  "turn_log (add_turn self cid query resp meta uid now) k =
     (if k = cid
      then turn_log self cid @ [\<lparr> ct_turn_id = uid, ct_query = query, ct_response = resp,
                                  ct_timestamp = now, ct_metadata = get_or meta [] \<rparr>]
      else turn_log self k)"
proof (cases "k = cid")
  case True
  then show ?thesis
    by (simp add: add_turn_def Let_def conversation_add_turn_def fst_get_or_create turn_log_def)
next
  case False
  have "turn_log (add_turn self cid query resp meta uid now) k
          = turn_log (snd (get_or_create_conversation self (Some cid) uid now)) k"
    using False by (simp add: add_turn_def Let_def turn_log_def)
  with False show ?thesis by (simp add: turn_log_get_or_create)
qed


lemma process_followup_success:
  assumes "process_followup env analyzer self query cid context_opt = (Inr result, self')"
  shows "self' = add_turn (snd (get_context_summary self cid (fresh_conversation_id env) (clock env)))
                   cid query (fu_explanation result)
                   (Some [(''is_followup'', PBool (fu_is_followup result)),
                          (''evidence_count'', PInt (int (fu_evidence_count result))),
                          (''enhanced_query'', PStr (fu_enhanced_query result))])
                   (fresh_turn_id env) (clock env)"
    and "fu_query result = query"
    and "fu_enhanced_query result
           = enhance_query_with_context query (resolve_context self cid context_opt)"
  using assms
  by (auto simp add: process_followup_def Let_def split: sum.splits)

lemma process_followup_failure:
  assumes "process_followup env analyzer self query cid context_opt = (Inl e, self')"
  shows "turn_log self' k = turn_log self k"
  using assms
  by (auto simp add: process_followup_def Let_def turn_log_get_context_summary split: sum.splits)

lemma process_followup_appends:
  assumes "process_followup env analyzer self query cid context_opt = (Inr result, self')"
  shows "turn_log self' cid =
           turn_log self cid @
             [\<lparr> ct_turn_id = fresh_turn_id env,
                ct_query = query,
                ct_response = fu_explanation result,
                ct_timestamp = clock env,
                ct_metadata =
                  [(''is_followup'', PBool (fu_is_followup result)),
                   (''evidence_count'', PInt (int (fu_evidence_count result))),
                   (''enhanced_query'', PStr (fu_enhanced_query result))] \<rparr>]"
  unfolding process_followup_success(1) [OF assms]
  by (simp add: turn_log_add_turn turn_log_get_context_summary get_or_def)






section \<open>Properties of the orchestrator\<close>

lemma process_query_started:
  "turn_log (snd (resolve_conversation_id env self cid_opt)) k = turn_log self k"
  by (cases cid_opt) (simp_all add: resolve_conversation_id_def Let_def turn_log_get_or_create)

lemma process_query_failure:
  assumes "process_query env analyzer self query cid_opt context_opt = (Inl e, self')"
  shows "turn_log self' k = turn_log self k"
proof -
  let ?cid = "fst (resolve_conversation_id env self cid_opt)"
  let ?self1 = "snd (resolve_conversation_id env self cid_opt)"
  have s: "turn_log ?self1 k = turn_log self k"
    by (rule process_query_started)
  show ?thesis
  proof (cases "takes_followup_path ?self1 query ?cid context_opt")
    case True
    obtain r self2 where p: "process_followup env analyzer ?self1 query ?cid context_opt = (r, self2)"
      by (cases "process_followup env analyzer ?self1 query ?cid context_opt") blast
    from assms True p have "r = Inl e \<and> self' = self2"
      unfolding process_query_def Let_def
      by (cases r) simp_all
    with p have "process_followup env analyzer ?self1 query ?cid context_opt = (Inl e, self')"
      by simp
    then have "turn_log self' k = turn_log ?self1 k"
      by (rule process_followup_failure)
    with s show ?thesis by simp
  next
    case False
    from assms False have "self' = ?self1"
      unfolding process_query_def Let_def
      by (cases "task1_process_query env analyzer query") (simp_all add: Let_def)
    with s show ?thesis by simp
  qed
qed

lemma task1_service_down:
  assumes "\<forall>q ev c. isl (generate_with_citations env q ev c)"
  shows "isl (task1_process_query env analyzer query)"
proof (cases "retrieve env query 20 10")
  case (Inl e)
  then show ?thesis by (simp add: task1_process_query_def Let_def)
next
  case (Inr spans)
  let ?an = "analyze_causal_spans analyzer spans query
               (pq_event_type (parse_query env query)) None 10"
  from assms have "isl (generate_with_citations env query ?an None)" by blast
  then obtain e where "generate_with_citations env query ?an None = Inl e"
    by (cases "generate_with_citations env query ?an None") simp_all
  with Inr show ?thesis by (simp add: task1_process_query_def Let_def)
qed

lemma followup_service_down:
  assumes "\<forall>q ev c. isl (generate_with_citations env q ev c)"
  shows "isl (fst (process_followup env analyzer self query cid context_opt))"
proof -
  let ?ctx = "resolve_context self cid context_opt"
  let ?eq = "enhance_query_with_context query ?ctx"
  show ?thesis
  proof (cases "retrieve_with_context env ?eq ?ctx 20 10")
    case (Inl e)
    then show ?thesis by (simp add: process_followup_def Let_def)
  next
    case (Inr spans)
    let ?an = "analyze_causal_spans analyzer spans ?eq (pq_event_type (parse_query env ?eq)) None 10"
    let ?cs = "Some (fst (get_context_summary self cid (fresh_conversation_id env) (clock env)))"
    from assms have "isl (generate_with_citations env ?eq ?an ?cs)" by blast
    then obtain e where "generate_with_citations env ?eq ?an ?cs = Inl e"
      by (cases "generate_with_citations env ?eq ?an ?cs") simp_all
    with Inr show ?thesis by (simp add: process_followup_def Let_def)
  qed
qed

lemma process_query_service_down:
  assumes "\<forall>q ev c. isl (generate_with_citations env q ev c)"
  shows "isl (fst (process_query env analyzer self query cid_opt context_opt))"
proof -
  let ?cid = "fst (resolve_conversation_id env self cid_opt)"
  let ?self1 = "snd (resolve_conversation_id env self cid_opt)"
  show ?thesis
  proof (cases "takes_followup_path ?self1 query ?cid context_opt")
    case True
    from followup_service_down [OF assms, of analyzer ?self1 query ?cid context_opt]
    obtain e self2 where "process_followup env analyzer ?self1 query ?cid context_opt = (Inl e, self2)"
      by (cases "process_followup env analyzer ?self1 query ?cid context_opt") (auto simp: isl_def)
    with True show ?thesis
      unfolding process_query_def Let_def by simp
  next
    case False
    from task1_service_down [OF assms, of analyzer query]
    obtain e where "task1_process_query env analyzer query = Inl e"
      by (cases "task1_process_query env analyzer query") simp_all
    with False show ?thesis
      unfolding process_query_def Let_def by simp
  qed
qed

lemma get_or_create_existing:
  "conversations self cid \<noteq> None
     \<Longrightarrow> snd (get_or_create_conversation self (Some cid) uid now) = self"
  by (auto simp add: get_or_create_conversation_def)

lemma is_followup_exists: "is_followup self query cid \<Longrightarrow> conversations self cid \<noteq> None"
  by (auto simp add: is_followup_def get_context_def split: option.splits)

lemma process_followup_failure_state:
  assumes "process_followup env analyzer self query cid context_opt = (Inl e, self')"
    and "conversations self cid \<noteq> None"
  shows "self' = self"
  using assms
  by (auto simp add: process_followup_def Let_def get_context_summary_def get_or_create_existing
      split: sum.splits)

lemma process_query_failure_state:
  assumes "process_query env analyzer self query cid_opt context_opt = (Inl e, self')"
  shows "self' = snd (resolve_conversation_id env self cid_opt)"
proof -
  let ?cid = "fst (resolve_conversation_id env self cid_opt)"
  let ?self1 = "snd (resolve_conversation_id env self cid_opt)"
  show ?thesis
  proof (cases "takes_followup_path ?self1 query ?cid context_opt")
    case True
    then have "is_followup ?self1 query ?cid"
      by (simp add: takes_followup_path_def)
    then have ex: "conversations ?self1 ?cid \<noteq> None"
      by (rule is_followup_exists)
    obtain r self2 where p: "process_followup env analyzer ?self1 query ?cid context_opt = (r, self2)"
      by (cases "process_followup env analyzer ?self1 query ?cid context_opt") blast
    from assms True p have "r = Inl e \<and> self' = self2"
      unfolding process_query_def Let_def
      by (cases r) simp_all
    with p have "process_followup env analyzer ?self1 query ?cid context_opt = (Inl e, self')"
      by simp
    from process_followup_failure_state [OF this ex] show ?thesis .
  next
    case False
    from assms False show "self' = ?self1"
      unfolding process_query_def Let_def
      by (cases "task1_process_query env analyzer query") (simp_all add: Let_def)
  qed
qed

lemma task1_success:
  assumes "task1_process_query env analyzer query = Inr result"
  shows "\<exists>q ev c x. generate_with_citations env q ev c = Inr x
           \<and> t1_full_explanation result = explanation x"
proof -
  from assms obtain spans x where
    "generate_with_citations env query
       (analyze_causal_spans analyzer spans query (pq_event_type (parse_query env query)) None 10)
       None = Inr x"
    and "t1_full_explanation result = explanation x"
    by (auto simp add: task1_process_query_def Let_def split: sum.splits)
  then show ?thesis by blast
qed

lemma followup_success_call:
  assumes "process_followup env analyzer self query cid context_opt = (Inr result, self')"
  shows "\<exists>q ev c x. generate_with_citations env q ev c = Inr x
           \<and> fu_explanation result = explanation x"
proof -
  from assms obtain q ev c x where
    "generate_with_citations env q ev c = Inr x"
    and "fu_explanation result = explanation x"
    by (auto simp add: process_followup_def Let_def split: sum.splits)
  then show ?thesis by blast
qed

lemma process_query_success:
  assumes "process_query env analyzer self query cid_opt context_opt = (Inr r, self')"
  shows "\<exists>q ev c x t. generate_with_citations env q ev c = Inr x
           \<and> turn_log self' (fst (resolve_conversation_id env self cid_opt))
               = turn_log self (fst (resolve_conversation_id env self cid_opt)) @ [t]
           \<and> ct_query t = query \<and> ct_response t = explanation x"
proof -
  let ?cid = "fst (resolve_conversation_id env self cid_opt)"
  let ?self1 = "snd (resolve_conversation_id env self cid_opt)"
  have s: "turn_log ?self1 ?cid = turn_log self ?cid"
    by (rule process_query_started)
  show ?thesis
  proof (cases "takes_followup_path ?self1 query ?cid context_opt")
    case True
    obtain a self2 where p: "process_followup env analyzer ?self1 query ?cid context_opt = (a, self2)"
      by (cases "process_followup env analyzer ?self1 query ?cid context_opt") blast
    from assms True p obtain result where a: "a = Inr result" and e: "self' = self2"
      unfolding process_query_def Let_def
      by (cases a) simp_all
    from p a e have pf: "process_followup env analyzer ?self1 query ?cid context_opt = (Inr result, self')"
      by simp
    from followup_success_call [OF pf] obtain q ev c x where
      g: "generate_with_citations env q ev c = Inr x" "fu_explanation result = explanation x"
      by blast
    from process_followup_appends [OF pf]
    have "\<exists>t. turn_log self' ?cid = turn_log ?self1 ?cid @ [t]
            \<and> ct_query t = query \<and> ct_response t = fu_explanation result"
      by simp
    then obtain t where "turn_log self' ?cid = turn_log ?self1 ?cid @ [t]"
      "ct_query t = query" "ct_response t = fu_explanation result" by blast
    with g s have "generate_with_citations env q ev c = Inr x
           \<and> turn_log self' ?cid = turn_log self ?cid @ [t]
           \<and> ct_query t = query \<and> ct_response t = explanation x" by simp
    then show ?thesis by blast
  next
    case False
    from assms False obtain result where
      t: "task1_process_query env analyzer query = Inr result"
      and e: "self' = add_turn ?self1 ?cid query (t1_full_explanation result)
                (Some [(''is_followup'', PBool False),
                       (''event_type'', opt_str (pq_event_type (t1_parsed_query result))),
                       (''evidence_count'', PInt (int (t1_evidence_count result)))])
                (fresh_turn_id env) (clock env)"
      unfolding process_query_def Let_def
      by (cases "task1_process_query env analyzer query")
         (simp_all add: Let_def task1_format_response_def)
    from task1_success [OF t] obtain q ev c x where
      g: "generate_with_citations env q ev c = Inr x" "t1_full_explanation result = explanation x"
      by blast
    have "\<exists>t. turn_log self' ?cid = turn_log ?self1 ?cid @ [t]
            \<and> ct_query t = query \<and> ct_response t = t1_full_explanation result"
      unfolding e by (simp add: turn_log_add_turn)
    then obtain t where "turn_log self' ?cid = turn_log ?self1 ?cid @ [t]"
      "ct_query t = query" "ct_response t = t1_full_explanation result" by blast
    with g s have "generate_with_citations env q ev c = Inr x
           \<and> turn_log self' ?cid = turn_log self ?cid @ [t]
           \<and> ct_query t = query \<and> ct_response t = explanation x" by simp
    then show ?thesis by blast
  qed
qed

text \<open>
  Claim C9. Whenever \<open>process_query\<close> ends with an exception of an external call, on
  the initial or on the follow-up path, every conversation has the turn log it had before
  the request, and when the request named its conversation the context manager is
  unchanged altogether. When the explanation service raises on every call,
  \<open>process_query\<close> ends with an exception, so no turn is recorded. When \<open>process_query\<close>
  returns, an explanation call has returned, and the conversation has gained exactly one
  turn, which holds the query and the explanation that call returned.
\<close>

theorem failed_explanation_records_no_turn:
  "(process_query env analyzer self query cid_opt context_opt = (Inl e, self') \<longrightarrow>
      (\<forall>k. turn_log self' k = turn_log self k))
   \<and> (process_query env analyzer self query (Some named) context_opt = (Inl e, self'') \<longrightarrow>
        self'' = self)
   \<and> ((\<forall>q ev c. isl (generate_with_citations env q ev c)) \<longrightarrow>
        isl (fst (process_query env analyzer self query cid_opt context_opt))
        \<and> (\<forall>k. turn_log (snd (process_query env analyzer self query cid_opt context_opt)) k
                 = turn_log self k))
   \<and> (process_query env analyzer self query cid_opt context_opt = (Inr r, self') \<longrightarrow>
        (\<exists>q ev c x t. generate_with_citations env q ev c = Inr x
           \<and> turn_log self' (fst (resolve_conversation_id env self cid_opt))
               = turn_log self (fst (resolve_conversation_id env self cid_opt)) @ [t]
           \<and> ct_query t = query \<and> ct_response t = explanation x))"
proof (intro conjI impI allI)
  fix k
  assume "process_query env analyzer self query cid_opt context_opt = (Inl e, self')"
  then show "turn_log self' k = turn_log self k"
    by (rule process_query_failure)
next
  assume "process_query env analyzer self query (Some named) context_opt = (Inl e, self'')"
  from process_query_failure_state [OF this] show "self'' = self"
    by (simp add: resolve_conversation_id_def)
next
  assume d: "\<forall>q ev c. isl (generate_with_citations env q ev c)"
  then show i: "isl (fst (process_query env analyzer self query cid_opt context_opt))"
    by (rule process_query_service_down)
  fix k
  from i obtain x s where "process_query env analyzer self query cid_opt context_opt = (Inl x, s)"
    by (cases "process_query env analyzer self query cid_opt context_opt") (auto simp: isl_def)
  then show "turn_log (snd (process_query env analyzer self query cid_opt context_opt)) k
                 = turn_log self k"
    by (simp add: process_query_failure)
next
  assume "process_query env analyzer self query cid_opt context_opt = (Inr r, self')"
  then show "\<exists>q ev c x t. generate_with_citations env q ev c = Inr x
           \<and> turn_log self' (fst (resolve_conversation_id env self cid_opt))
               = turn_log self (fst (resolve_conversation_id env self cid_opt)) @ [t]
           \<and> ct_query t = query \<and> ct_response t = explanation x"
    by (rule process_query_success)
qed

theorem failed_explanation_records_no_turn_witness:
  "isl (fst (process_query
        \<lparr> fresh_conversation_id = ''n'', fresh_turn_id = ''v'', clock = 1,
          parse_query = (\<lambda>q. \<lparr> pq_event_type = None, pq_intent = None \<rparr>),
          retrieve = (\<lambda>q k r. Inr []),
          generate_with_citations = (\<lambda>q ev c. Inl (ExternalServiceError ''timeout'')) \<rparr>
        default_scorer
        \<lparr> conversations = [''c'' \<mapsto>
           \<lparr> conversation_id = ''c'',
             turns = [\<lparr> ct_turn_id = ''u'', ct_query = ''Why refunds?'',
                        ct_response = ''Because.'', ct_timestamp = 0, ct_metadata = [] \<rparr>],
             created_at = 0, updated_at = 0, cc_metadata = [] \<rparr>],
          max_context_length = 4000 \<rparr>
        ''what about that?'' (Some ''c'') None))
   \<and> map ct_query (turn_log (snd (process_query
        \<lparr> fresh_conversation_id = ''n'', fresh_turn_id = ''v'', clock = 1,
          parse_query = (\<lambda>q. \<lparr> pq_event_type = None, pq_intent = None \<rparr>),
          retrieve = (\<lambda>q k r. Inr []),
          generate_with_citations = (\<lambda>q ev c. Inl (ExternalServiceError ''timeout'')) \<rparr>
        default_scorer
        \<lparr> conversations = [''c'' \<mapsto>
           \<lparr> conversation_id = ''c'',
             turns = [\<lparr> ct_turn_id = ''u'', ct_query = ''Why refunds?'',
                        ct_response = ''Because.'', ct_timestamp = 0, ct_metadata = [] \<rparr>],
             created_at = 0, updated_at = 0, cc_metadata = [] \<rparr>],
          max_context_length = 4000 \<rparr>
        ''what about that?'' (Some ''c'') None)) ''c'') = [''Why refunds?'']
   \<and> map ct_query (turn_log (snd (process_query
        \<lparr> fresh_conversation_id = ''n'', fresh_turn_id = ''v'', clock = 1,
          parse_query = (\<lambda>q. \<lparr> pq_event_type = None, pq_intent = None \<rparr>),
          retrieve = (\<lambda>q k r. Inr []),
          generate_with_citations = (\<lambda>q ev c. Inr \<lparr> explanation = ''E'', citations = [] \<rparr>) \<rparr>
        default_scorer
        \<lparr> conversations = [''c'' \<mapsto>
           \<lparr> conversation_id = ''c'',
             turns = [\<lparr> ct_turn_id = ''u'', ct_query = ''Why refunds?'',
                        ct_response = ''Because.'', ct_timestamp = 0, ct_metadata = [] \<rparr>],
             created_at = 0, updated_at = 0, cc_metadata = [] \<rparr>],
          max_context_length = 4000 \<rparr>
        ''what about that?'' (Some ''c'') None)) ''c'')
     = [''Why refunds?'', ''what about that?'']"
proof -
  let ?env = "\<lparr> fresh_conversation_id = ''n'', fresh_turn_id = ''v'', clock = 1,
          parse_query = (\<lambda>q. \<lparr> pq_event_type = None, pq_intent = None \<rparr>),
          retrieve = (\<lambda>q k r. Inr []),
          generate_with_citations = (\<lambda>q ev c. Inl (ExternalServiceError ''timeout'')) \<rparr>"
  let ?cm = "\<lparr> conversations = [''c'' \<mapsto>
           \<lparr> conversation_id = ''c'',
             turns = [\<lparr> ct_turn_id = ''u'', ct_query = ''Why refunds?'',
                        ct_response = ''Because.'', ct_timestamp = 0, ct_metadata = [] \<rparr>],
             created_at = 0, updated_at = 0, cc_metadata = [] \<rparr>],
          max_context_length = 4000 \<rparr>"
  have down: "\<forall>q ev c. isl (generate_with_citations ?env q ev c)" by simp
  note t = failed_explanation_records_no_turn
    [where env = ?env and analyzer = default_scorer and self = ?cm
       and query = "''what about that?''" and cid_opt = "Some ''c''" and context_opt = None,
     THEN conjunct2, THEN conjunct2, THEN conjunct1, THEN mp, OF down]
  have "turn_log ?cm ''c'' = [\<lparr> ct_turn_id = ''u'', ct_query = ''Why refunds?'',
                        ct_response = ''Because.'', ct_timestamp = 0, ct_metadata = [] \<rparr>]"
    by (simp add: turn_log_def)
  moreover from t [THEN conjunct1] obtain x s where
    r: "process_query ?env default_scorer ?cm ''what about that?'' (Some ''c'') None = (Inl x, s)"
    by (cases "process_query ?env default_scorer ?cm ''what about that?'' (Some ''c'') None")
       (auto simp: isl_def)
  from failed_explanation_records_no_turn
    [where env = ?env and analyzer = default_scorer and self = ?cm
       and query = "''what about that?''" and cid_opt = "Some ''c''" and context_opt = None
       and e = x and self' = s,
     THEN conjunct1, THEN mp, OF r, rule_format, of "''c''"]
  have "turn_log s ''c'' = turn_log ?cm ''c''" .
  ultimately have m: "map ct_query (turn_log s ''c'') = [''Why refunds?'']"
    by simp
  from r have e: "snd (process_query ?env default_scorer ?cm
           ''what about that?'' (Some ''c'') None) = s"
    by (simp only: snd_conv)
  from m have "map ct_query (turn_log (snd (process_query ?env default_scorer ?cm
           ''what about that?'' (Some ''c'') None)) ''c'') = [''Why refunds?'']"
    by (simp only: e)
  with t [THEN conjunct1] have failing:
    "isl (fst (process_query ?env default_scorer ?cm ''what about that?'' (Some ''c'') None))
     \<and> map ct_query (turn_log (snd (process_query ?env default_scorer ?cm
           ''what about that?'' (Some ''c'') None)) ''c'') = [''Why refunds?'']"
    by simp
  let ?ok = "\<lparr> fresh_conversation_id = ''n'', fresh_turn_id = ''v'', clock = 1,
          parse_query = (\<lambda>q. \<lparr> pq_event_type = None, pq_intent = None \<rparr>),
          retrieve = (\<lambda>q k r. Inr []),
          generate_with_citations = (\<lambda>q ev c. Inr \<lparr> explanation = ''E'', citations = [] \<rparr>) \<rparr>"
  let ?cm = "\<lparr> conversations = [''c'' \<mapsto>
           \<lparr> conversation_id = ''c'',
             turns = [\<lparr> ct_turn_id = ''u'', ct_query = ''Why refunds?'',
                        ct_response = ''Because.'', ct_timestamp = 0, ct_metadata = [] \<rparr>],
             created_at = 0, updated_at = 0, cc_metadata = [] \<rparr>],
          max_context_length = 4000 \<rparr>"
  have tl: "turn_log ?cm ''c'' = [\<lparr> ct_turn_id = ''u'', ct_query = ''Why refunds?'',
                        ct_response = ''Because.'', ct_timestamp = 0, ct_metadata = [] \<rparr>]"
    by (simp add: turn_log_def)
  have cid: "fst (resolve_conversation_id ?ok ?cm (Some ''c'')) = ''c''"
    by (simp add: resolve_conversation_id_def)
  obtain r2 s2 where
    ok: "process_query ?ok default_scorer ?cm ''what about that?'' (Some ''c'') None = (Inr r2, s2)"
    by (cases "takes_followup_path (snd (resolve_conversation_id ?ok ?cm (Some ''c'')))
                 ''what about that?'' (fst (resolve_conversation_id ?ok ?cm (Some ''c''))) None")
       (simp_all add: process_query_def Let_def process_followup_def retrieve_with_context_def
          task1_process_query_def)
  from failed_explanation_records_no_turn
    [where env = ?ok and analyzer = default_scorer and self = ?cm
       and query = "''what about that?''" and cid_opt = "Some ''c''" and context_opt = None
       and r = r2 and self' = s2,
     THEN conjunct2, THEN conjunct2, THEN conjunct2, THEN mp, OF ok]
  obtain t where "turn_log s2 ''c'' = turn_log ?cm ''c'' @ [t]" "ct_query t = ''what about that?''"
    unfolding cid by blast
  then have "map ct_query (turn_log s2 ''c'') = [''Why refunds?'', ''what about that?'']"
    by (simp add: tl)
  moreover from ok have "snd (process_query ?ok default_scorer ?cm ''what about that?''
      (Some ''c'') None) = s2"
    by (simp only: snd_conv)
  ultimately have "map ct_query (turn_log (snd (process_query ?ok default_scorer ?cm
      ''what about that?'' (Some ''c'') None)) ''c'') = [''Why refunds?'', ''what about that?'']"
    by (simp only:)
  with failing show ?thesis by (intro conjI) blast+
qed

end
